theory Spec2Isabelle
  imports Complex_Main "HOL-Library.Word"
begin

section \<open>The score server (server.cjs): wallet signatures, sessions, score submission\<close>

text \<open>
  The file is one Express application with three POST handlers that carry the protocol:
  \<^verbatim>\<open>/api/register\<close>, \<^verbatim>\<open>/api/session\<close> and \<^verbatim>\<open>/api/score\<close>. Each handler is embedded
  as a function from the request body, the clock and the database to the new database
  and the HTTP response. A \<^verbatim>\<open>throw\<close> is a value of type \<open>js_error\<close>; the handler's
  \<^verbatim>\<open>try { ... } catch\<close> is the case distinction that turns it into the 500 response.
\<close>

subsection \<open>Values of a JSON request body\<close>

text \<open>
  A destructured field of \<^verbatim>\<open>req.body\<close> is \<^verbatim>\<open>undefined\<close> when the key is absent and a
  JSON value otherwise. Arrays and objects are one constructor: the handlers never look
  inside one, and two of them are never \<^verbatim>\<open>===\<close> (each is a fresh object of its own
  parse). A number is the exact value of the double; a string is its list of code units.
\<close>

datatype jsval =
    JUndefined
  | JNull
  | JBool bool
  | JNum real
  | JStr string
  | JObject

text \<open>\<^verbatim>\<open>!v\<close>: the falsy values are undefined, null, false, 0 and the empty string.\<close>

fun falsy :: "jsval \<Rightarrow> bool" where
  "falsy JUndefined = True"
| "falsy JNull = True"
| "falsy (JBool b) = (\<not> b)"
| "falsy (JNum n) = (n = 0)"
| "falsy (JStr s) = (s = [])"
| "falsy JObject = False"

text \<open>\<^verbatim>\<open>a === b\<close> on values of two separate parses.\<close>

fun strict_eq :: "jsval \<Rightarrow> jsval \<Rightarrow> bool" where
  "strict_eq JUndefined JUndefined = True"
| "strict_eq JNull JNull = True"
| "strict_eq (JBool a) (JBool b) = (a = b)"
| "strict_eq (JNum a) (JNum b) = (a = b)"
| "strict_eq (JStr a) (JStr b) = (a = b)"
| "strict_eq _ _ = False"

subsection \<open>Errors and responses\<close>

datatype js_error =
    ExpectedString          \<comment> \<open>bs58: \<^verbatim>\<open>TypeError('Expected String')\<close>\<close>
  | NonBase58Character      \<comment> \<open>bs58: \<^verbatim>\<open>Error('Non-base58 character')\<close>\<close>
  | BadSignatureSize        \<comment> \<open>tweetnacl: \<^verbatim>\<open>Error('bad signature size')\<close>\<close>
  | BadPublicKeySize        \<comment> \<open>tweetnacl: \<^verbatim>\<open>Error('bad public key size')\<close>\<close>
  | CastError               \<comment> \<open>mongoose: a value that is not of the path's type\<close>
  | ValidationError         \<comment> \<open>mongoose: a validator of the schema failed\<close>
  | DuplicateKey            \<comment> \<open>MongoDB: the unique index on \<^verbatim>\<open>wallet\<close>\<close>

type_synonym bytes = "8 word list"

record user =
  u_wallet :: string
  u_name :: "string option"
  u_createdAt :: nat

record score_doc =
  s_wallet :: string
  s_game :: string
  s_score :: "real option"
  s_name :: string
  s_timestamp :: nat

record db =
  users :: "user list"
  scores :: "score_doc list"

datatype body =
    ErrorBody string                \<comment> \<open>\<^verbatim>\<open>{ error: ... }\<close>\<close>
  | RegisterBody user               \<comment> \<open>\<^verbatim>\<open>{ success: true, user }\<close>\<close>
  | SessionBody string              \<comment> \<open>\<^verbatim>\<open>{ sessionToken }\<close>\<close>
  | SuccessBody                     \<comment> \<open>\<^verbatim>\<open>{ success: true }\<close>\<close>

record response =
  status :: nat
  payload :: body

definition reply :: "nat \<Rightarrow> body \<Rightarrow> response" where
  "reply st b = \<lparr>status = st, payload = b\<rparr>"

subsection \<open>The packages the handlers call\<close>

text \<open>
  The cryptography and the JavaScript conversions are parameters: the Ed25519 check of
  tweetnacl on arguments of the right sizes, \<^verbatim>\<open>TextEncoder().encode\<close>, the sealing and
  opening of a compact token by jsonwebtoken (HMAC and base64url), and the runtime's
  \<^verbatim>\<open>String(n)\<close> and \<^verbatim>\<open>Number(s)\<close> (\<open>None\<close> is \<^verbatim>\<open>NaN\<close>) that the mongoose casts use.
\<close>

record session_claims =
  c_wallet :: jsval
  c_game :: jsval
  c_issuedAt :: nat
  c_expiresAt :: nat

record deps =
  ed25519_verify :: "bytes \<Rightarrow> bytes \<Rightarrow> bytes \<Rightarrow> bool"
  text_encode :: "jsval \<Rightarrow> bytes"
  jwt_seal :: "string \<Rightarrow> session_claims \<Rightarrow> string"
  jwt_open :: "string \<Rightarrow> string \<Rightarrow> session_claims option"
  number_to_string :: "real \<Rightarrow> string"
  string_to_number :: "string \<Rightarrow> real option"

subsubsection \<open>bs58.decode\<close>

text \<open>
  Modelled from the spec: \<^verbatim>\<open>bs58.decode\<close> is the bs58 package, which is not in the
  repository ("a fixed textual encoding (base-58) of raw cryptographic byte arrays";
  malformed text is a decoding failure). Base-58 with the Bitcoin alphabet, the one the
  package implements. A leading \<^verbatim>\<open>1\<close> is a zero byte; the rest is the
  big-endian number in base 58, written in base 256 without leading zeros. A value that
  is not a string, and a character outside the alphabet, throw.
\<close>

definition ALPHABET :: string where
  "ALPHABET = ''123456789ABCDEFGHJKLMNPQRSTUVWXYZabcdefghijkmnopqrstuvwxyz''"

fun index_of :: "'a list \<Rightarrow> 'a \<Rightarrow> nat option" where
  "index_of [] c = None"
| "index_of (x # xs) c = (if x = c then Some 0 else map_option Suc (index_of xs c))"

fun base58_value :: "nat \<Rightarrow> string \<Rightarrow> nat option" where
  "base58_value acc [] = Some acc"
| "base58_value acc (c # cs) =
     (case index_of ALPHABET c of
        None \<Rightarrow> None
      | Some d \<Rightarrow> base58_value (acc * 58 + d) cs)"

fun base256 :: "nat \<Rightarrow> bytes" where
  "base256 n = (if n = 0 then [] else base256 (n div 256) @ [of_nat (n mod 256)])"

declare base256.simps [simp del]

definition bs58_decode :: "jsval \<Rightarrow> js_error + bytes" where
  "bs58_decode v =
     (case v of
        JStr s \<Rightarrow>
          (case base58_value 0 s of
             None \<Rightarrow> Inl NonBase58Character
           | Some n \<Rightarrow>
               Inr (replicate (length (takeWhile (\<lambda>c. c = CHR ''1'') s)) 0 @ base256 n))
      | _ \<Rightarrow> Inl ExpectedString)"

subsubsection \<open>nacl.sign.detached.verify\<close>

text \<open>
  Modelled from the spec: \<^verbatim>\<open>nacl.sign.detached.verify\<close> is the tweetnacl package
  ("32-byte public key, 64-byte signature, detached signature over raw message bytes";
  a wrong-length key or signature is a failure, which the package throws, the signature
  first). On arguments of the right sizes the answer is the parameter.
\<close>

definition nacl_sign_detached_verify :: "deps \<Rightarrow> bytes \<Rightarrow> bytes \<Rightarrow> bytes \<Rightarrow> js_error + bool" where
  "nacl_sign_detached_verify L msg sig publicKey =
     (if length sig \<noteq> 64 then Inl BadSignatureSize
      else if length publicKey \<noteq> 32 then Inl BadPublicKeySize
      else Inr (ed25519_verify L msg sig publicKey))"

subsubsection \<open>jwt.sign and jwt.verify\<close>

text \<open>
  Modelled from the spec: \<^verbatim>\<open>jwt.sign\<close> and \<^verbatim>\<open>jwt.verify\<close> are the jsonwebtoken package.
  Issuing embeds wallet, game, issuedAt = now and expiresAt = now + the window, and seals
  them under the secret. Verifying opens the token under the secret (\<open>InvalidToken\<close> when
  the integrity check fails or the text is malformed; a value that is not a string is
  malformed), then compares the clock with expiresAt, "equal to expiresAt counts as
  expired"; it returns the wallet and the game. The package's clock is in whole seconds.
\<close>

datatype jwt_error = ExpiredToken | InvalidToken

record session_payload =
  p_wallet :: jsval
  p_game :: jsval

definition jwt_sign :: "deps \<Rightarrow> jsval \<Rightarrow> jsval \<Rightarrow> string \<Rightarrow> nat \<Rightarrow> nat \<Rightarrow> string" where
  "jwt_sign L wallet game secret expiresIn clock =
     jwt_seal L secret
       \<lparr>c_wallet = wallet, c_game = game, c_issuedAt = clock, c_expiresAt = clock + expiresIn\<rparr>"

definition jwt_verify :: "deps \<Rightarrow> jsval \<Rightarrow> string \<Rightarrow> nat \<Rightarrow> jwt_error + session_payload" where
  "jwt_verify L token secret clock =
     (case token of
        JStr s \<Rightarrow>
          (case jwt_open L secret s of
             None \<Rightarrow> Inl InvalidToken
           | Some c \<Rightarrow>
               if c_expiresAt c \<le> clock then Inl ExpiredToken
               else Inr \<lparr>p_wallet = c_wallet c, p_game = c_game c\<rparr>)
      | _ \<Rightarrow> Inl InvalidToken)"

subsubsection \<open>The mongoose models\<close>

text \<open>
  Modelled from the spec: the record store is mongoose over MongoDB ("a generic record
  store", Users with a unique index on wallet, Scores with no constraint; a create is
  all or nothing). The two collections are lists in insertion order. The schemas are
  the source's: \<^verbatim>\<open>String\<close> and \<^verbatim>\<open>Number\<close> paths cast what they are given,
  \<^verbatim>\<open>required\<close> refuses a missing or empty wallet, \<^verbatim>\<open>maxlength: 10\<close> refuses a longer
  name, and \<^verbatim>\<open>save\<close> rejects with a ValidationError when a cast or a validator failed.
  A failure of the connection is outside the model.
\<close>

definition castString :: "deps \<Rightarrow> jsval \<Rightarrow> js_error + string option" where
  "castString L v =
     (case v of
        JUndefined \<Rightarrow> Inr None
      | JNull \<Rightarrow> Inr None
      | JBool b \<Rightarrow> Inr (Some (if b then ''true'' else ''false''))
      | JNum n \<Rightarrow> Inr (Some (number_to_string L n))
      | JStr s \<Rightarrow> Inr (Some s)
      | JObject \<Rightarrow> Inl CastError)"

definition castNumber :: "deps \<Rightarrow> jsval \<Rightarrow> js_error + real option" where
  "castNumber L v =
     (case v of
        JUndefined \<Rightarrow> Inr None
      | JNull \<Rightarrow> Inr None
      | JBool b \<Rightarrow> Inr (Some (if b then 1 else 0))
      | JNum n \<Rightarrow> Inr (Some n)
      | JStr s \<Rightarrow>
          (if s = [] then Inr None
           else case string_to_number L s of
                  None \<Rightarrow> Inl CastError
                | Some n \<Rightarrow> Inr (Some n))
      | JObject \<Rightarrow> Inl CastError)"

text \<open>\<^verbatim>\<open>User.findOne({ wallet })\<close>: the first user whose wallet is the cast key.\<close>

definition User_findOne :: "deps \<Rightarrow> db \<Rightarrow> jsval \<Rightarrow> js_error + user option" where
  "User_findOne L d wallet =
     (case castString L wallet of
        Inl e \<Rightarrow> Inl e
      | Inr None \<Rightarrow> Inr None
      | Inr (Some w) \<Rightarrow> Inr (find (\<lambda>u. u_wallet u = w) (users d)))"

text \<open>\<^verbatim>\<open>user = new User({ wallet, name }); await user.save()\<close>, with the userSchema.\<close>

definition User_save :: "deps \<Rightarrow> nat \<Rightarrow> db \<Rightarrow> jsval \<Rightarrow> jsval \<Rightarrow> js_error + (db \<times> user)" where
  "User_save L now d wallet name =
     (case castString L wallet of
        Inl e \<Rightarrow> Inl ValidationError
      | Inr None \<Rightarrow> Inl ValidationError
      | Inr (Some w) \<Rightarrow>
          (case castString L name of
             Inl e \<Rightarrow> Inl ValidationError
           | Inr n \<Rightarrow>
               if w = [] then Inl ValidationError
               else if (case n of None \<Rightarrow> False | Some s \<Rightarrow> 10 < length s)
                 then Inl ValidationError
               else if w \<in> set (map u_wallet (users d)) then Inl DuplicateKey
               else
                 (let u = \<lparr>u_wallet = w, u_name = n, u_createdAt = now\<rparr>
                  in Inr (d\<lparr>users := users d @ [u]\<rparr>, u))))"

text \<open>
  \<^verbatim>\<open>newScore = new Score({ wallet, game, score, name: userName }); await newScore.save()\<close>,
  with the scoreSchema: no validator, so only a cast can fail.
\<close>

definition Score_save :: "deps \<Rightarrow> nat \<Rightarrow> db \<Rightarrow> jsval \<Rightarrow> jsval \<Rightarrow> jsval \<Rightarrow> string \<Rightarrow> js_error + db" where
  "Score_save L now d wallet game score userName =
     (case castString L wallet of
        Inl e \<Rightarrow> Inl ValidationError
      | Inr w \<Rightarrow>
          (case castString L game of
             Inl e \<Rightarrow> Inl ValidationError
           | Inr g \<Rightarrow>
               (case castNumber L score of
                  Inl e \<Rightarrow> Inl ValidationError
                | Inr n \<Rightarrow>
                    Inr (d\<lparr>scores := scores d @
                      [\<lparr>s_wallet = (case w of None \<Rightarrow> [] | Some x \<Rightarrow> x),
                        s_game = (case g of None \<Rightarrow> [] | Some x \<Rightarrow> x),
                        s_score = n, s_name = userName, s_timestamp = now\<rparr>]\<rparr>))))"

subsection \<open>Configuration\<close>

text \<open>
  \<^verbatim>\<open>JWT_SECRET = process.env.JWT_SECRET || 'your_jwt_secret'\<close> (an unset or empty variable
  is falsy) and \<^verbatim>\<open>SESSION_DURATION = 10 * 60\<close>. The handlers below take the secret as
  an argument: it is set once when the process starts.
\<close>

definition JWT_SECRET :: "string option \<Rightarrow> string" where
  "JWT_SECRET env =
     (case env of
        None \<Rightarrow> ''your_jwt_secret''
      | Some s \<Rightarrow> if s = [] then ''your_jwt_secret'' else s)"

definition SESSION_DURATION :: nat where
  "SESSION_DURATION = 10 * 60"

definition internal_server_error :: response where
  "internal_server_error = reply 500 (ErrorBody ''Internal server error'')"

subsection \<open>POST /api/register\<close>

record register_req =
  rg_wallet :: jsval
  rg_signature :: jsval
  rg_message :: jsval
  rg_name :: jsval
  rg_skip :: jsval

text \<open>
  The block \<^verbatim>\<open>if (!skip) { ... }\<close>: \<open>Some r\<close> is the early \<^verbatim>\<open>return\<close> of the response
  \<open>r\<close>, \<open>None\<close> falls through to the lookup. The wallet is decoded before the signature.
\<close>

definition register_proof :: "deps \<Rightarrow> register_req \<Rightarrow> js_error + response option" where
  "register_proof L req =
     (if falsy (rg_skip req) then
        (if falsy (rg_signature req) \<or> falsy (rg_message req)
         then Inr (Some (reply 400 (ErrorBody ''Missing required fields'')))
         else
           (case bs58_decode (rg_wallet req) of
              Inl e \<Rightarrow> Inl e
            | Inr publicKey \<Rightarrow>
                (case bs58_decode (rg_signature req) of
                   Inl e \<Rightarrow> Inl e
                 | Inr sig \<Rightarrow>
                     (case nacl_sign_detached_verify L (text_encode L (rg_message req)) sig publicKey of
                        Inl e \<Rightarrow> Inl e
                      | Inr isValid \<Rightarrow>
                          if \<not> isValid
                          then Inr (Some (reply 400 (ErrorBody ''Invalid signature'')))
                          else Inr None))))
      else Inr None)"

text \<open>The lookup and, for a wallet that is not registered, the creation.\<close>

definition register_store :: "deps \<Rightarrow> nat \<Rightarrow> db \<Rightarrow> register_req \<Rightarrow> js_error + (db \<times> response)" where
  "register_store L now d req =
     (case User_findOne L d (rg_wallet req) of
        Inl e \<Rightarrow> Inl e
      | Inr (Some user) \<Rightarrow> Inr (d, reply 200 (RegisterBody user))
      | Inr None \<Rightarrow>
          (case User_save L now d (rg_wallet req) (rg_name req) of
             Inl e \<Rightarrow> Inl e
           | Inr (d', user) \<Rightarrow> Inr (d', reply 200 (RegisterBody user))))"

text \<open>The body of the \<^verbatim>\<open>try\<close>.\<close>

definition register_try :: "deps \<Rightarrow> nat \<Rightarrow> db \<Rightarrow> register_req \<Rightarrow> js_error + (db \<times> response)" where
  "register_try L now d req =
     (if falsy (rg_wallet req) then Inr (d, reply 400 (ErrorBody ''Missing wallet''))
      else
        (case register_proof L req of
           Inl e \<Rightarrow> Inl e
         | Inr (Some r) \<Rightarrow> Inr (d, r)
         | Inr None \<Rightarrow> register_store L now d req))"

text \<open>The handler: the \<^verbatim>\<open>catch\<close> answers 500; nothing was written when a call threw.\<close>

definition api_register :: "deps \<Rightarrow> nat \<Rightarrow> db \<Rightarrow> register_req \<Rightarrow> db \<times> response" where
  "api_register L now d req =
     (case register_try L now d req of
        Inl e \<Rightarrow> (d, internal_server_error)
      | Inr r \<Rightarrow> r)"

subsection \<open>POST /api/session\<close>

record session_req =
  ss_wallet :: jsval
  ss_game :: jsval

definition api_session :: "deps \<Rightarrow> string \<Rightarrow> nat \<Rightarrow> session_req \<Rightarrow> response" where
  "api_session L secret now req =
     (if falsy (ss_wallet req) \<or> falsy (ss_game req)
      then reply 400 (ErrorBody ''Missing wallet or game'')
      else reply 200 (SessionBody
             (jwt_sign L (ss_wallet req) (ss_game req) secret SESSION_DURATION (now div 1000))))"

subsection \<open>POST /api/score\<close>

record score_req =
  sc_wallet :: jsval
  sc_game :: jsval
  sc_score :: jsval
  sc_sessionToken :: jsval
  sc_clientSignature :: jsval
  sc_signatureMessage :: jsval

text \<open>The first \<^verbatim>\<open>if\<close>: \<^verbatim>\<open>score\<close> is compared with \<^verbatim>\<open>undefined\<close>, the others are negated.\<close>

definition missing_fields :: "score_req \<Rightarrow> bool" where
  "missing_fields req \<longleftrightarrow>
     falsy (sc_wallet req) \<or> falsy (sc_game req) \<or> sc_score req = JUndefined \<or>
     falsy (sc_sessionToken req) \<or> falsy (sc_clientSignature req) \<or>
     falsy (sc_signatureMessage req)"

text \<open>
  The three lines that verify the client's signature: the signature is decoded before
  the wallet here.
\<close>

definition score_signature :: "deps \<Rightarrow> score_req \<Rightarrow> js_error + bool" where
  "score_signature L req =
     (case bs58_decode (sc_clientSignature req) of
        Inl e \<Rightarrow> Inl e
      | Inr sigBytes \<Rightarrow>
          (case bs58_decode (sc_wallet req) of
             Inl e \<Rightarrow> Inl e
           | Inr walletPublicKey \<Rightarrow>
               nacl_sign_detached_verify L (text_encode L (sc_signatureMessage req))
                 sigBytes walletPublicKey))"

text \<open>\<^verbatim>\<open>let userName = ""; if (user && user.name) userName = user.name\<close>.\<close>

definition userName_of :: "user option \<Rightarrow> string" where
  "userName_of user =
     (case user of
        None \<Rightarrow> []
      | Some u \<Rightarrow> (case u_name u of None \<Rightarrow> [] | Some n \<Rightarrow> if n = [] then [] else n))"

text \<open>The lookup of the name and the save of the score.\<close>

definition score_store :: "deps \<Rightarrow> nat \<Rightarrow> db \<Rightarrow> score_req \<Rightarrow> js_error + (db \<times> response)" where
  "score_store L now d req =
     (case User_findOne L d (sc_wallet req) of
        Inl e \<Rightarrow> Inl e
      | Inr user \<Rightarrow>
          (case Score_save L now d (sc_wallet req) (sc_game req) (sc_score req) (userName_of user) of
             Inl e \<Rightarrow> Inl e
           | Inr d' \<Rightarrow> Inr (d', reply 200 SuccessBody)))"

text \<open>The body of the outer \<^verbatim>\<open>try\<close>; the inner one around \<^verbatim>\<open>jwt.verify\<close> answers 401.\<close>

definition score_try :: "deps \<Rightarrow> string \<Rightarrow> nat \<Rightarrow> db \<Rightarrow> score_req \<Rightarrow> js_error + (db \<times> response)" where
  "score_try L secret now d req =
     (if missing_fields req then Inr (d, reply 400 (ErrorBody ''Missing required fields''))
      else
        (case jwt_verify L (sc_sessionToken req) secret (now div 1000) of
           Inl err \<Rightarrow> Inr (d, reply 401 (ErrorBody ''Invalid or expired session token''))
         | Inr sessionPayload \<Rightarrow>
             if \<not> strict_eq (p_wallet sessionPayload) (sc_wallet req) \<or>
                \<not> strict_eq (p_game sessionPayload) (sc_game req)
             then Inr (d, reply 401 (ErrorBody ''Session token does not match the request''))
             else
               (case score_signature L req of
                  Inl e \<Rightarrow> Inl e
                | Inr isValidSignature \<Rightarrow>
                    if \<not> isValidSignature
                    then Inr (d, reply 401 (ErrorBody ''Invalid client signature''))
                    else score_store L now d req)))"

definition api_score :: "deps \<Rightarrow> string \<Rightarrow> nat \<Rightarrow> db \<Rightarrow> score_req \<Rightarrow> db \<times> response" where
  "api_score L secret now d req =
     (case score_try L secret now d req of
        Inl e \<Rightarrow> (d, internal_server_error)
      | Inr r \<Rightarrow> r)"

subsection \<open>A concrete instance for the examples\<close>

text \<open>
  The examples below run the handlers on the scenario of the specification: the wallet
  is 32 times \<^verbatim>\<open>1\<close> (32 zero bytes), a signature is 64 times \<^verbatim>\<open>1\<close> (64 zero bytes), the
  game is snake, the name is Ann. In this instance of the packages a signature is valid
  exactly for the message \<^verbatim>\<open>m1\<close>, and the one sealed token is \<^verbatim>\<open>tok\<close>, which under the
  secret \<^verbatim>\<open>k\<close> opens to the session of that wallet and game issued at second 5.
\<close>

definition wallet_W :: string where
  "wallet_W = ''11111111111111111111111111111111''"

definition signature_S :: string where
  "signature_S = ''1111111111111111111111111111111111111111111111111111111111111111''"

definition utf8 :: "string \<Rightarrow> bytes" where
  "utf8 s = map (\<lambda>c. of_nat (of_char c)) s"

definition claims_W :: session_claims where
  "claims_W =
     \<lparr>c_wallet = JStr wallet_W, c_game = JStr ''snake'', c_issuedAt = 5, c_expiresAt = 605\<rparr>"

definition example_deps :: deps where
  "example_deps =
     \<lparr>ed25519_verify = (\<lambda>msg sig publicKey. msg = utf8 ''m1''),
      text_encode = (\<lambda>v. case v of JStr s \<Rightarrow> utf8 s | _ \<Rightarrow> []),
      jwt_seal = (\<lambda>secret c. ''tok''),
      jwt_open = (\<lambda>secret s. if secret = ''k'' \<and> s = ''tok'' then Some claims_W else None),
      number_to_string = (\<lambda>n. ''0''),
      string_to_number = (\<lambda>s. None)\<rparr>"

definition empty_db :: db where
  "empty_db = \<lparr>users = [], scores = []\<rparr>"

definition user_Ann :: user where
  "user_Ann = \<lparr>u_wallet = wallet_W, u_name = Some ''Ann'', u_createdAt = 1000\<rparr>"

definition db_Ann :: db where
  "db_Ann = \<lparr>users = [user_Ann], scores = []\<rparr>"

definition register_Ann :: register_req where
  "register_Ann =
     \<lparr>rg_wallet = JStr wallet_W, rg_signature = JUndefined, rg_message = JUndefined,
      rg_name = JStr ''Ann'', rg_skip = JBool True\<rparr>"

definition submit_42 :: score_req where
  "submit_42 =
     \<lparr>sc_wallet = JStr wallet_W, sc_game = JStr ''snake'', sc_score = JNum 42,
      sc_sessionToken = JStr ''tok'', sc_clientSignature = JStr signature_S,
      sc_signatureMessage = JStr ''m1''\<rparr>"

text \<open>Registrations with a proof: a wallet that is not base-58, a wallet that decodes
  to one byte, and two well-formed proofs over messages other than \<^verbatim>\<open>m1\<close>.\<close>

definition register_bad_wallet :: register_req where
  "register_bad_wallet =
     \<lparr>rg_wallet = JStr ''0OIl'', rg_signature = JStr signature_S, rg_message = JStr ''m1'',
      rg_name = JStr ''Ann'', rg_skip = JUndefined\<rparr>"

definition register_short_key :: register_req where
  "register_short_key =
     \<lparr>rg_wallet = JStr ''2'', rg_signature = JStr signature_S, rg_message = JStr ''m1'',
      rg_name = JStr ''Ann'', rg_skip = JUndefined\<rparr>"

definition register_forged :: register_req where
  "register_forged =
     \<lparr>rg_wallet = JStr wallet_W, rg_signature = JStr signature_S, rg_message = JStr ''m2'',
      rg_name = JStr ''Ann'', rg_skip = JUndefined\<rparr>"

definition register_forged_skip_false :: register_req where
  "register_forged_skip_false =
     \<lparr>rg_wallet = JStr wallet_W, rg_signature = JStr signature_S, rg_message = JStr ''hello'',
      rg_name = JNull, rg_skip = JBool False\<rparr>"

text \<open>Submissions that fail at one check, with the later fields wrong as well.\<close>

definition submit_all_wrong :: score_req where
  "submit_all_wrong =
     \<lparr>sc_wallet = JStr ''0OIl'', sc_game = JStr ''tetris'', sc_score = JUndefined,
      sc_sessionToken = JStr ''forged'', sc_clientSignature = JStr ''0OIl'',
      sc_signatureMessage = JStr ''m2''\<rparr>"

definition submit_forged_token :: score_req where
  "submit_forged_token = submit_all_wrong\<lparr>sc_score := JNum 42\<rparr>"

definition submit_wrong_game :: score_req where
  "submit_wrong_game =
     submit_42\<lparr>sc_game := JStr ''tetris'', sc_clientSignature := JStr ''0OIl''\<rparr>"

definition submit_wrong_message :: score_req where
  "submit_wrong_message = submit_42\<lparr>sc_signatureMessage := JStr ''m2''\<rparr>"

definition submit_bad_signature :: score_req where
  "submit_bad_signature = submit_42\<lparr>sc_clientSignature := JStr ''0OIl''\<rparr>"

definition submit_undecodable_signature :: score_req where
  "submit_undecodable_signature = submit_42\<lparr>sc_clientSignature := JStr ''0xdeadbeef''\<rparr>"

definition submit_short_signature :: score_req where
  "submit_short_signature = submit_42\<lparr>sc_clientSignature := JStr ''2''\<rparr>"


text \<open>More submissions and registrations: a score of 0, an empty game, a wallet that
  never registered, a name of eleven characters, one of ten, and a second name for the
  wallet of Ann.\<close>

definition submit_unregistered :: score_req where
  "submit_unregistered = submit_42\<lparr>sc_score := JNum 7\<rparr>"

definition submit_zero :: score_req where
  "submit_zero = submit_42\<lparr>sc_score := JNum 0\<rparr>"

definition submit_empty_game :: score_req where
  "submit_empty_game = submit_42\<lparr>sc_game := JStr []\<rparr>"

definition register_long_name :: register_req where
  "register_long_name = register_Ann\<lparr>rg_name := JStr ''Christopher''\<rparr>"


definition register_Bob :: register_req where
  "register_Bob = register_Ann\<lparr>rg_name := JStr ''Bob''\<rparr>"

section \<open>Properties\<close>

subsection \<open>Facts about the packages\<close>

lemma strict_eq_eq: "strict_eq a b \<Longrightarrow> a = b"
  by (cases a; cases b) simp_all

lemma nacl_true:
  "nacl_sign_detached_verify L m sig pk = Inr True \<Longrightarrow>
     length sig = 64 \<and> length pk = 32 \<and> ed25519_verify L m sig pk"
  by (simp add: nacl_sign_detached_verify_def split: if_splits)

lemma jwt_verify_Inr:
  "jwt_verify L token secret clock = Inr sp \<Longrightarrow>
     \<exists>tok c. token = JStr tok \<and> jwt_open L secret tok = Some c \<and> clock < c_expiresAt c \<and>
       sp = \<lparr>p_wallet = c_wallet c, p_game = c_game c\<rparr>"
  by (auto simp: jwt_verify_def split: jsval.splits option.splits if_splits)

lemma score_signature_True:
  "score_signature L req = Inr True \<Longrightarrow>
     \<exists>sig pk. bs58_decode (sc_clientSignature req) = Inr sig \<and>
       bs58_decode (sc_wallet req) = Inr pk \<and> length sig = 64 \<and> length pk = 32 \<and>
       ed25519_verify L (text_encode L (sc_signatureMessage req)) sig pk"
  by (auto simp: score_signature_def split: sum.splits dest: nacl_true)

lemma bs58_decode_Inr: "bs58_decode v = Inr b \<Longrightarrow> \<exists>s. v = JStr s"
  by (cases v) (simp_all add: bs58_decode_def)

lemma score_signature_wallet: "score_signature L req = Inr b \<Longrightarrow> \<exists>w. sc_wallet req = JStr w"
  by (auto simp: score_signature_def split: sum.splits dest: bs58_decode_Inr)

lemma castString_JStr: "castString L (JStr s) = Inr (Some s)"
  by (simp add: castString_def)

lemma castString_strict_eq:
  "strict_eq a v \<Longrightarrow> \<not> falsy v \<Longrightarrow> \<exists>g. castString L v = Inr (Some g)"
  by (cases a; cases v) (simp_all add: castString_def)

subsection \<open>Score submission\<close>

lemma api_score_changed:
  assumes "api_score L secret now d req = (d', r)" and "d' \<noteq> d"
  shows "\<not> missing_fields req \<and>
     (\<exists>sp. jwt_verify L (sc_sessionToken req) secret (now div 1000) = Inr sp \<and>
        strict_eq (p_wallet sp) (sc_wallet req) \<and> strict_eq (p_game sp) (sc_game req)) \<and>
     score_signature L req = Inr True"
  using assms
  by (auto simp: api_score_def score_try_def split: sum.splits if_splits)

text \<open>
  C1. A call of the score handler that adds a ScoreRecord was given a session token
  that opens under the signing secret and is not expired at that time, whose wallet and
  game are the request's, and a signature of the right size that decodes and verifies
  against the request wallet's key over the request's signatureMessage. Read the other
  way: when one of these fails, the Scores collection is as it was.
\<close>

theorem score_persisted_only_if_authenticated:
  assumes "api_score L secret now d req = (d', r)" and "scores d' \<noteq> scores d"
  shows "\<exists>tok c sig pk.
     sc_sessionToken req = JStr tok \<and> jwt_open L secret tok = Some c \<and>
     now div 1000 < c_expiresAt c \<and>
     c_wallet c = sc_wallet req \<and> c_game c = sc_game req \<and>
     bs58_decode (sc_clientSignature req) = Inr sig \<and>
     bs58_decode (sc_wallet req) = Inr pk \<and> length sig = 64 \<and> length pk = 32 \<and>
     ed25519_verify L (text_encode L (sc_signatureMessage req)) sig pk"
proof -
  from assms(2) have "d' \<noteq> d" by auto
  with assms(1) obtain sp where
    v: "jwt_verify L (sc_sessionToken req) secret (now div 1000) = Inr sp"
    and w: "strict_eq (p_wallet sp) (sc_wallet req)"
    and g: "strict_eq (p_game sp) (sc_game req)"
    and s: "score_signature L req = Inr True"
    using api_score_changed by blast
  from v obtain tok c where
    t: "sc_sessionToken req = JStr tok" "jwt_open L secret tok = Some c"
       "now div 1000 < c_expiresAt c"
    and sp: "sp = \<lparr>p_wallet = c_wallet c, p_game = c_game c\<rparr>"
    using jwt_verify_Inr by blast
  from w g sp have "c_wallet c = sc_wallet req" "c_game c = sc_game req"
    by (auto dest: strict_eq_eq)
  with t score_signature_True [OF s] show ?thesis by blast
qed

theorem score_persisted_only_if_authenticated_witness:
  "scores (fst (api_score example_deps ''k'' 5000 db_Ann submit_42)) \<noteq> scores db_Ann \<and>
   (\<exists>tok c sig pk.
     sc_sessionToken submit_42 = JStr tok \<and> jwt_open example_deps ''k'' tok = Some c \<and>
     5000 div 1000 < c_expiresAt c \<and>
     c_wallet c = sc_wallet submit_42 \<and> c_game c = sc_game submit_42 \<and>
     bs58_decode (sc_clientSignature submit_42) = Inr sig \<and>
     bs58_decode (sc_wallet submit_42) = Inr pk \<and> length sig = 64 \<and> length pk = 32 \<and>
     ed25519_verify example_deps (text_encode example_deps (sc_signatureMessage submit_42)) sig pk)"
proof -
  have run: "api_score example_deps ''k'' 5000 db_Ann submit_42 =
      (db_Ann\<lparr>scores := [\<lparr>s_wallet = wallet_W, s_game = ''snake'', s_score = Some 42,
         s_name = ''Ann'', s_timestamp = 5000\<rparr>]\<rparr>, reply 200 SuccessBody)"
    by code_simp
  have new: "scores (db_Ann\<lparr>scores := [\<lparr>s_wallet = wallet_W, s_game = ''snake'',
      s_score = Some 42, s_name = ''Ann'', s_timestamp = 5000\<rparr>]\<rparr>) \<noteq> scores db_Ann"
    by (simp add: db_Ann_def)
  from score_persisted_only_if_authenticated [OF run new] run new show ?thesis
    by simp
qed

text \<open>
  C4, as the code has it. The checks of the score handler run in this order, and the
  first that fails decides the response, whatever the later fields are: (1) a missing
  field answers 400 "Missing required fields"; (2) a token that does not verify answers
  401; (3) a payload whose wallet or game is not the request's answers 401 "Session
  token does not match the request"; (4) a signature check that returns false answers
  401 "Invalid client signature", and one that throws (a signature or wallet that does
  not decode, or of the wrong length) answers 500 "Internal server error"; in all of
  these the database is untouched. (5, 6) A request that passed the four is answered by
  the lookup of the user and the save of the score with the name found, and only such a
  request: a call that changed the database or answered 200 passed them, and its new
  database is what the save returned.
\<close>

theorem score_checks_in_order:
  "(missing_fields req \<longrightarrow>
      api_score L secret now d req = (d, reply 400 (ErrorBody ''Missing required fields''))) \<and>
   (\<not> missing_fields req \<and>
    jwt_verify L (sc_sessionToken req) secret (now div 1000) = Inl err \<longrightarrow>
      api_score L secret now d req =
        (d, reply 401 (ErrorBody ''Invalid or expired session token''))) \<and>
   (\<not> missing_fields req \<and>
    jwt_verify L (sc_sessionToken req) secret (now div 1000) = Inr sp \<and>
    (\<not> strict_eq (p_wallet sp) (sc_wallet req) \<or> \<not> strict_eq (p_game sp) (sc_game req)) \<longrightarrow>
      api_score L secret now d req =
        (d, reply 401 (ErrorBody ''Session token does not match the request''))) \<and>
   (\<not> missing_fields req \<and>
    jwt_verify L (sc_sessionToken req) secret (now div 1000) = Inr sp \<and>
    strict_eq (p_wallet sp) (sc_wallet req) \<and> strict_eq (p_game sp) (sc_game req) \<and>
    score_signature L req = Inr False \<longrightarrow>
      api_score L secret now d req = (d, reply 401 (ErrorBody ''Invalid client signature''))) \<and>
   (\<not> missing_fields req \<and>
    jwt_verify L (sc_sessionToken req) secret (now div 1000) = Inr sp \<and>
    strict_eq (p_wallet sp) (sc_wallet req) \<and> strict_eq (p_game sp) (sc_game req) \<and>
    score_signature L req = Inl thrown \<longrightarrow>
      api_score L secret now d req = (d, reply 500 (ErrorBody ''Internal server error''))) \<and>
   (\<not> missing_fields req \<and>
    jwt_verify L (sc_sessionToken req) secret (now div 1000) = Inr sp \<and>
    strict_eq (p_wallet sp) (sc_wallet req) \<and> strict_eq (p_game sp) (sc_game req) \<and>
    score_signature L req = Inr True \<longrightarrow>
      (\<exists>user. User_findOne L d (sc_wallet req) = Inr user \<and>
         api_score L secret now d req =
           (case Score_save L now d (sc_wallet req) (sc_game req) (sc_score req)
                   (userName_of user) of
              Inl e \<Rightarrow> (d, reply 500 (ErrorBody ''Internal server error''))
            | Inr d' \<Rightarrow> (d', reply 200 SuccessBody)))) \<and>
   (fst (api_score L secret now d req) \<noteq> d \<or> status (snd (api_score L secret now d req)) = 200 \<longrightarrow>
      \<not> missing_fields req \<and>
      (\<exists>p. jwt_verify L (sc_sessionToken req) secret (now div 1000) = Inr p \<and>
         strict_eq (p_wallet p) (sc_wallet req) \<and> strict_eq (p_game p) (sc_game req)) \<and>
      score_signature L req = Inr True \<and>
      (\<exists>user. User_findOne L d (sc_wallet req) = Inr user \<and>
         Score_save L now d (sc_wallet req) (sc_game req) (sc_score req) (userName_of user) =
           Inr (fst (api_score L secret now d req))))"
proof -
  have c1: "missing_fields req \<longrightarrow>
      api_score L secret now d req = (d, reply 400 (ErrorBody ''Missing required fields''))"
    by (simp add: api_score_def score_try_def)
  have c2: "\<not> missing_fields req \<and>
    jwt_verify L (sc_sessionToken req) secret (now div 1000) = Inl err \<longrightarrow>
      api_score L secret now d req =
        (d, reply 401 (ErrorBody ''Invalid or expired session token''))"
    by (simp add: api_score_def score_try_def)
  have c3: "\<not> missing_fields req \<and>
    jwt_verify L (sc_sessionToken req) secret (now div 1000) = Inr sp \<and>
    (\<not> strict_eq (p_wallet sp) (sc_wallet req) \<or> \<not> strict_eq (p_game sp) (sc_game req)) \<longrightarrow>
      api_score L secret now d req =
        (d, reply 401 (ErrorBody ''Session token does not match the request''))"
    by (auto simp: api_score_def score_try_def)
  have c4: "\<not> missing_fields req \<and>
    jwt_verify L (sc_sessionToken req) secret (now div 1000) = Inr sp \<and>
    strict_eq (p_wallet sp) (sc_wallet req) \<and> strict_eq (p_game sp) (sc_game req) \<and>
    score_signature L req = Inr False \<longrightarrow>
      api_score L secret now d req = (d, reply 401 (ErrorBody ''Invalid client signature''))"
    by (simp add: api_score_def score_try_def)
  have c4t: "\<not> missing_fields req \<and>
    jwt_verify L (sc_sessionToken req) secret (now div 1000) = Inr sp \<and>
    strict_eq (p_wallet sp) (sc_wallet req) \<and> strict_eq (p_game sp) (sc_game req) \<and>
    score_signature L req = Inl thrown \<longrightarrow>
      api_score L secret now d req = (d, reply 500 (ErrorBody ''Internal server error''))"
    by (simp add: api_score_def score_try_def internal_server_error_def)
  have c56: "\<not> missing_fields req \<and>
    jwt_verify L (sc_sessionToken req) secret (now div 1000) = Inr sp \<and>
    strict_eq (p_wallet sp) (sc_wallet req) \<and> strict_eq (p_game sp) (sc_game req) \<and>
    score_signature L req = Inr True \<longrightarrow>
      (\<exists>user. User_findOne L d (sc_wallet req) = Inr user \<and>
         api_score L secret now d req =
           (case Score_save L now d (sc_wallet req) (sc_game req) (sc_score req)
                   (userName_of user) of
              Inl e \<Rightarrow> (d, reply 500 (ErrorBody ''Internal server error''))
            | Inr d' \<Rightarrow> (d', reply 200 SuccessBody)))"
  proof
    assume a: "\<not> missing_fields req \<and>
      jwt_verify L (sc_sessionToken req) secret (now div 1000) = Inr sp \<and>
      strict_eq (p_wallet sp) (sc_wallet req) \<and> strict_eq (p_game sp) (sc_game req) \<and>
      score_signature L req = Inr True"
    then obtain w where w: "sc_wallet req = JStr w"
      using score_signature_wallet by blast
    let ?user = "find (\<lambda>u. u_wallet u = w) (users d)"
    from w have f: "User_findOne L d (sc_wallet req) = Inr ?user"
      by (simp add: User_findOne_def castString_JStr)
    from a f have "api_score L secret now d req =
           (case Score_save L now d (sc_wallet req) (sc_game req) (sc_score req)
                   (userName_of ?user) of
              Inl e \<Rightarrow> (d, reply 500 (ErrorBody ''Internal server error''))
            | Inr d' \<Rightarrow> (d', reply 200 SuccessBody))"
      by (simp add: api_score_def score_try_def score_store_def internal_server_error_def
            split: sum.splits)
    with f show "\<exists>user. User_findOne L d (sc_wallet req) = Inr user \<and>
         api_score L secret now d req =
           (case Score_save L now d (sc_wallet req) (sc_game req) (sc_score req)
                   (userName_of user) of
              Inl e \<Rightarrow> (d, reply 500 (ErrorBody ''Internal server error''))
            | Inr d' \<Rightarrow> (d', reply 200 SuccessBody))"
      by blast
  qed
  have c7: "fst (api_score L secret now d req) \<noteq> d \<or>
      status (snd (api_score L secret now d req)) = 200 \<longrightarrow>
      \<not> missing_fields req \<and>
      (\<exists>p. jwt_verify L (sc_sessionToken req) secret (now div 1000) = Inr p \<and>
         strict_eq (p_wallet p) (sc_wallet req) \<and> strict_eq (p_game p) (sc_game req)) \<and>
      score_signature L req = Inr True \<and>
      (\<exists>user. User_findOne L d (sc_wallet req) = Inr user \<and>
         Score_save L now d (sc_wallet req) (sc_game req) (sc_score req) (userName_of user) =
           Inr (fst (api_score L secret now d req)))"
    by (auto simp: api_score_def score_try_def score_store_def internal_server_error_def
          reply_def split: sum.splits if_splits)
  show ?thesis
    by (rule conjI [OF c1 conjI [OF c2 conjI [OF c3 conjI [OF c4 conjI [OF c4t
          conjI [OF c56 c7]]]]]])
qed

theorem score_checks_in_order_witness:
  "api_score example_deps ''k'' 5000 db_Ann submit_all_wrong =
     (db_Ann, reply 400 (ErrorBody ''Missing required fields'')) \<and>
   api_score example_deps ''k'' 5000 db_Ann submit_forged_token =
     (db_Ann, reply 401 (ErrorBody ''Invalid or expired session token'')) \<and>
   api_score example_deps ''k'' 5000 db_Ann submit_wrong_game =
     (db_Ann, reply 401 (ErrorBody ''Session token does not match the request'')) \<and>
   api_score example_deps ''k'' 5000 db_Ann submit_wrong_message =
     (db_Ann, reply 401 (ErrorBody ''Invalid client signature'')) \<and>
   api_score example_deps ''k'' 5000 db_Ann submit_short_signature =
     (db_Ann, reply 500 (ErrorBody ''Internal server error'')) \<and>
   api_score example_deps ''k'' 5000 db_Ann submit_42 =
     (db_Ann\<lparr>scores := scores db_Ann @
        [\<lparr>s_wallet = wallet_W, s_game = ''snake'', s_score = Some 42, s_name = ''Ann'',
          s_timestamp = 5000\<rparr>]\<rparr>, reply 200 SuccessBody) \<and>
   score_signature example_deps submit_42 = Inr True \<and>
   Score_save example_deps 5000 db_Ann (sc_wallet submit_42) (sc_game submit_42)
       (sc_score submit_42) ''Ann'' =
     Inr (fst (api_score example_deps ''k'' 5000 db_Ann submit_42))"
proof -
  let ?sp = "\<lparr>p_wallet = JStr wallet_W, p_game = JStr ''snake''\<rparr>"
  let ?rec = "\<lparr>s_wallet = wallet_W, s_game = ''snake'', s_score = Some 42, s_name = ''Ann'',
          s_timestamp = 5000\<rparr>"
  have m1: "missing_fields submit_all_wrong"
    by code_simp
  have m2: "\<not> missing_fields submit_forged_token \<and>
      jwt_verify example_deps (sc_sessionToken submit_forged_token) ''k'' (5000 div 1000) =
        Inl InvalidToken"
    by code_simp
  have m3: "\<not> missing_fields submit_wrong_game \<and>
      jwt_verify example_deps (sc_sessionToken submit_wrong_game) ''k'' (5000 div 1000) =
        Inr ?sp \<and>
      (\<not> strict_eq (p_wallet ?sp) (sc_wallet submit_wrong_game) \<or>
       \<not> strict_eq (p_game ?sp) (sc_game submit_wrong_game))"
    by code_simp
  have m4: "\<not> missing_fields submit_wrong_message \<and>
      jwt_verify example_deps (sc_sessionToken submit_wrong_message) ''k'' (5000 div 1000) =
        Inr ?sp \<and>
      strict_eq (p_wallet ?sp) (sc_wallet submit_wrong_message) \<and>
      strict_eq (p_game ?sp) (sc_game submit_wrong_message) \<and>
      score_signature example_deps submit_wrong_message = Inr False"
    by code_simp
  have m4t: "\<not> missing_fields submit_short_signature \<and>
      jwt_verify example_deps (sc_sessionToken submit_short_signature) ''k'' (5000 div 1000) =
        Inr ?sp \<and>
      strict_eq (p_wallet ?sp) (sc_wallet submit_short_signature) \<and>
      strict_eq (p_game ?sp) (sc_game submit_short_signature) \<and>
      score_signature example_deps submit_short_signature = Inl BadSignatureSize"
    by code_simp
  have m56: "\<not> missing_fields submit_42 \<and>
      jwt_verify example_deps (sc_sessionToken submit_42) ''k'' (5000 div 1000) = Inr ?sp \<and>
      strict_eq (p_wallet ?sp) (sc_wallet submit_42) \<and>
      strict_eq (p_game ?sp) (sc_game submit_42) \<and>
      score_signature example_deps submit_42 = Inr True"
    by code_simp
  have m7: "status (snd (api_score example_deps ''k'' 5000 db_Ann submit_42)) = 200"
    by code_simp
  have u: "User_findOne example_deps db_Ann (sc_wallet submit_42) = Inr (Some user_Ann)"
    by code_simp
  have n: "userName_of (Some user_Ann) = ''Ann''"
    by code_simp
  have sv: "Score_save example_deps 5000 db_Ann (sc_wallet submit_42) (sc_game submit_42)
      (sc_score submit_42) ''Ann'' = Inr (db_Ann\<lparr>scores := scores db_Ann @ [?rec]\<rparr>)"
    by code_simp
  note a = score_checks_in_order [where L = example_deps and secret = "''k''" and now = 5000
      and d = db_Ann and req = submit_all_wrong]
  note b = score_checks_in_order [where L = example_deps and secret = "''k''" and now = 5000
      and d = db_Ann and req = submit_forged_token and err = InvalidToken]
  note c = score_checks_in_order [where L = example_deps and secret = "''k''" and now = 5000
      and d = db_Ann and req = submit_wrong_game and sp = ?sp]
  note d = score_checks_in_order [where L = example_deps and secret = "''k''" and now = 5000
      and d = db_Ann and req = submit_wrong_message and sp = ?sp]
  note t = score_checks_in_order [where L = example_deps and secret = "''k''" and now = 5000
      and d = db_Ann and req = submit_short_signature and sp = ?sp
      and thrown = BadSignatureSize]
  note e = score_checks_in_order [where L = example_deps and secret = "''k''" and now = 5000
      and d = db_Ann and req = submit_42 and sp = ?sp]
  from a m1 have r1: "api_score example_deps ''k'' 5000 db_Ann submit_all_wrong =
      (db_Ann, reply 400 (ErrorBody ''Missing required fields''))"
    by blast
  from b m2 have r2: "api_score example_deps ''k'' 5000 db_Ann submit_forged_token =
      (db_Ann, reply 401 (ErrorBody ''Invalid or expired session token''))"
    by blast
  from c m3 have r3: "api_score example_deps ''k'' 5000 db_Ann submit_wrong_game =
      (db_Ann, reply 401 (ErrorBody ''Session token does not match the request''))"
    by blast
  from d m4 have r4: "api_score example_deps ''k'' 5000 db_Ann submit_wrong_message =
      (db_Ann, reply 401 (ErrorBody ''Invalid client signature''))"
    by blast
  from t m4t have r4t: "api_score example_deps ''k'' 5000 db_Ann submit_short_signature =
      (db_Ann, reply 500 (ErrorBody ''Internal server error''))"
    by blast
  from e m56 have "\<exists>user. User_findOne example_deps db_Ann (sc_wallet submit_42) = Inr user \<and>
      api_score example_deps ''k'' 5000 db_Ann submit_42 =
        (case Score_save example_deps 5000 db_Ann (sc_wallet submit_42) (sc_game submit_42)
                (sc_score submit_42) (userName_of user) of
           Inl e \<Rightarrow> (db_Ann, reply 500 (ErrorBody ''Internal server error''))
         | Inr d' \<Rightarrow> (d', reply 200 SuccessBody))"
    by blast
  with u n sv have r5: "api_score example_deps ''k'' 5000 db_Ann submit_42 =
      (db_Ann\<lparr>scores := scores db_Ann @ [?rec]\<rparr>, reply 200 SuccessBody)"
    by auto
  from e m7 have r6: "score_signature example_deps submit_42 = Inr True \<and>
      (\<exists>user. User_findOne example_deps db_Ann (sc_wallet submit_42) = Inr user \<and>
         Score_save example_deps 5000 db_Ann (sc_wallet submit_42) (sc_game submit_42)
           (sc_score submit_42) (userName_of user) =
         Inr (fst (api_score example_deps ''k'' 5000 db_Ann submit_42)))"
    by blast
  with u n have r7: "Score_save example_deps 5000 db_Ann (sc_wallet submit_42)
      (sc_game submit_42) (sc_score submit_42) ''Ann'' =
      Inr (fst (api_score example_deps ''k'' 5000 db_Ann submit_42))"
    by auto
  from r1 r2 r3 r4 r4t r5 r6 r7 show ?thesis by blast
qed

text \<open>
  C4 as stated fails at step 4: a submission that passes the first three checks and
  whose signature is not base-58 makes the verification throw, and is answered 500
  "Internal server error", not 401 "Invalid client signature".
\<close>

theorem score_step4_throw_is_not_401:
  "\<not> missing_fields submit_undecodable_signature \<and>
   jwt_verify example_deps (sc_sessionToken submit_undecodable_signature) ''k'' (5000 div 1000) =
     Inr \<lparr>p_wallet = JStr wallet_W, p_game = JStr ''snake''\<rparr> \<and>
   strict_eq (JStr wallet_W) (sc_wallet submit_undecodable_signature) \<and>
   strict_eq (JStr ''snake'') (sc_game submit_undecodable_signature) \<and>
   score_signature example_deps submit_undecodable_signature = Inl NonBase58Character \<and>
   api_score example_deps ''k'' 5000 db_Ann submit_undecodable_signature =
     (db_Ann, \<lparr>status = 500, payload = ErrorBody ''Internal server error''\<rparr>)"
  by code_simp

subsection \<open>Decoding failures\<close>

lemma register_proof_throws:
  assumes "falsy (rg_skip req)" "\<not> falsy (rg_signature req)" "\<not> falsy (rg_message req)"
    and "isl (bs58_decode (rg_wallet req)) \<or> isl (bs58_decode (rg_signature req)) \<or>
         length (projr (bs58_decode (rg_signature req))) \<noteq> 64 \<or>
         length (projr (bs58_decode (rg_wallet req))) \<noteq> 32"
  shows "isl (register_proof L req)"
  using assms
  by (auto simp: register_proof_def nacl_sign_detached_verify_def split: sum.splits)

lemma score_signature_throws:
  assumes "isl (bs58_decode (sc_wallet req)) \<or> isl (bs58_decode (sc_clientSignature req)) \<or>
         length (projr (bs58_decode (sc_clientSignature req))) \<noteq> 64 \<or>
         length (projr (bs58_decode (sc_wallet req))) \<noteq> 32"
  shows "isl (score_signature L req)"
  using assms
  by (auto simp: score_signature_def nacl_sign_detached_verify_def split: sum.splits)


text \<open>
  C2, as the code has it. When base-58 decoding of the wallet or of the signature
  fails (text outside the alphabet, a value that is not a string) or the decoded key
  or signature has the wrong length, the verification throws in both handlers. The
  handler's own \<^verbatim>\<open>catch\<close> answers 500 "Internal server error", and nothing is stored.
\<close>

theorem decode_failure_is_internal_error:
  "(\<not> falsy (rg_wallet rq) \<and> falsy (rg_skip rq) \<and> \<not> falsy (rg_signature rq) \<and>
    \<not> falsy (rg_message rq) \<and>
    (isl (bs58_decode (rg_wallet rq)) \<or> isl (bs58_decode (rg_signature rq)) \<or>
     length (projr (bs58_decode (rg_signature rq))) \<noteq> 64 \<or>
     length (projr (bs58_decode (rg_wallet rq))) \<noteq> 32)
    \<longrightarrow> api_register L now d rq = (d, reply 500 (ErrorBody ''Internal server error''))) \<and>
   (\<not> missing_fields req \<and>
    jwt_verify L (sc_sessionToken req) secret (now div 1000) = Inr sp \<and>
    strict_eq (p_wallet sp) (sc_wallet req) \<and> strict_eq (p_game sp) (sc_game req) \<and>
    (isl (bs58_decode (sc_wallet req)) \<or> isl (bs58_decode (sc_clientSignature req)) \<or>
     length (projr (bs58_decode (sc_clientSignature req))) \<noteq> 64 \<or>
     length (projr (bs58_decode (sc_wallet req))) \<noteq> 32)
    \<longrightarrow> api_score L secret now d req = (d, reply 500 (ErrorBody ''Internal server error'')))"
proof (intro conjI impI)
  assume a: "\<not> falsy (rg_wallet rq) \<and> falsy (rg_skip rq) \<and> \<not> falsy (rg_signature rq) \<and>
    \<not> falsy (rg_message rq) \<and>
    (isl (bs58_decode (rg_wallet rq)) \<or> isl (bs58_decode (rg_signature rq)) \<or>
     length (projr (bs58_decode (rg_signature rq))) \<noteq> 64 \<or>
     length (projr (bs58_decode (rg_wallet rq))) \<noteq> 32)"
  then have "isl (register_proof L rq)"
    using register_proof_throws by blast
  with a show "api_register L now d rq = (d, reply 500 (ErrorBody ''Internal server error''))"
    by (auto simp: api_register_def register_try_def internal_server_error_def isl_def)
next
  assume a: "\<not> missing_fields req \<and>
    jwt_verify L (sc_sessionToken req) secret (now div 1000) = Inr sp \<and>
    strict_eq (p_wallet sp) (sc_wallet req) \<and> strict_eq (p_game sp) (sc_game req) \<and>
    (isl (bs58_decode (sc_wallet req)) \<or> isl (bs58_decode (sc_clientSignature req)) \<or>
     length (projr (bs58_decode (sc_clientSignature req))) \<noteq> 64 \<or>
     length (projr (bs58_decode (sc_wallet req))) \<noteq> 32)"
  then have "isl (score_signature L req)"
    using score_signature_throws by blast
  with a show "api_score L secret now d req = (d, reply 500 (ErrorBody ''Internal server error''))"
    by (auto simp: api_score_def score_try_def internal_server_error_def isl_def)
qed

theorem decode_failure_is_internal_error_witness:
  "api_register example_deps 1000 empty_db register_short_key =
     (empty_db, reply 500 (ErrorBody ''Internal server error'')) \<and>
   api_score example_deps ''k'' 5000 db_Ann submit_short_signature =
     (db_Ann, reply 500 (ErrorBody ''Internal server error''))"
proof -
  have k: "bs58_decode (JStr ''2'') = Inr [1]" by code_simp
  have s: "bs58_decode (JStr signature_S) = Inr (replicate 64 0)" by code_simp
  have w: "bs58_decode (JStr wallet_W) = Inr (replicate 32 0)" by code_simp
  have v: "jwt_verify example_deps (sc_sessionToken submit_short_signature) ''k'' (5000 div 1000) =
      Inr \<lparr>p_wallet = JStr wallet_W, p_game = JStr ''snake''\<rparr>" by code_simp
  have h1: "\<not> falsy (rg_wallet register_short_key) \<and> falsy (rg_skip register_short_key) \<and>
      \<not> falsy (rg_signature register_short_key) \<and> \<not> falsy (rg_message register_short_key) \<and>
      (isl (bs58_decode (rg_wallet register_short_key)) \<or>
       isl (bs58_decode (rg_signature register_short_key)) \<or>
       length (projr (bs58_decode (rg_signature register_short_key))) \<noteq> 64 \<or>
       length (projr (bs58_decode (rg_wallet register_short_key))) \<noteq> 32)"
    by (simp add: register_short_key_def k s signature_S_def)
  have h2: "\<not> missing_fields submit_short_signature \<and>
      jwt_verify example_deps (sc_sessionToken submit_short_signature) ''k'' (5000 div 1000) =
        Inr \<lparr>p_wallet = JStr wallet_W, p_game = JStr ''snake''\<rparr> \<and>
      strict_eq (p_wallet \<lparr>p_wallet = JStr wallet_W, p_game = JStr ''snake''\<rparr>)
        (sc_wallet submit_short_signature) \<and>
      strict_eq (p_game \<lparr>p_wallet = JStr wallet_W, p_game = JStr ''snake''\<rparr>)
        (sc_game submit_short_signature) \<and>
      (isl (bs58_decode (sc_wallet submit_short_signature)) \<or>
       isl (bs58_decode (sc_clientSignature submit_short_signature)) \<or>
       length (projr (bs58_decode (sc_clientSignature submit_short_signature))) \<noteq> 64 \<or>
       length (projr (bs58_decode (sc_wallet submit_short_signature))) \<noteq> 32)"
    using v by (simp add: submit_short_signature_def submit_42_def missing_fields_def k w wallet_W_def)
  note reg = decode_failure_is_internal_error
      [where rq = register_short_key and L = example_deps and now = 1000 and d = empty_db]
  note sub = decode_failure_is_internal_error
      [where req = submit_short_signature and L = example_deps and now = 5000
         and secret = "''k''" and d = db_Ann
         and sp = "\<lparr>p_wallet = JStr wallet_W, p_game = JStr ''snake''\<rparr>"]
  from h1 reg have r1: "api_register example_deps 1000 empty_db register_short_key =
      (empty_db, reply 500 (ErrorBody ''Internal server error''))"
    by blast
  from h2 sub have r2: "api_score example_deps ''k'' 5000 db_Ann submit_short_signature =
      (db_Ann, reply 500 (ErrorBody ''Internal server error''))"
    by blast
  from r1 r2 show ?thesis by blast
qed

text \<open>
  C2 as stated fails: a registration whose wallet is not base-58 and a submission
  whose signature is not base-58 are answered 500, not one of the 400/401 kinds.
\<close>

theorem decode_failure_not_normalized:
  "bs58_decode (JStr ''0OIl'') = Inl NonBase58Character \<and>
   api_register example_deps 1000 empty_db register_bad_wallet =
     (empty_db, reply 500 (ErrorBody ''Internal server error'')) \<and>
   api_score example_deps ''k'' 5000 db_Ann submit_bad_signature =
     (db_Ann, reply 500 (ErrorBody ''Internal server error''))"
  by code_simp

subsection \<open>Registration\<close>

text \<open>
  C5, as the code has it. A registration with a proof (skip not set, signature and
  message present) whose signature check returns false is answered 400 "Invalid
  signature", and the database is untouched.
\<close>

theorem register_invalid_signature_400:
  assumes "\<not> falsy (rg_wallet req)" and "falsy (rg_skip req)"
    and "\<not> falsy (rg_signature req)" and "\<not> falsy (rg_message req)"
    and "bs58_decode (rg_wallet req) = Inr publicKey"
    and "bs58_decode (rg_signature req) = Inr sig"
    and "nacl_sign_detached_verify L (text_encode L (rg_message req)) sig publicKey = Inr False"
  shows "api_register L now d req = (d, reply 400 (ErrorBody ''Invalid signature''))"
  using assms
  by (simp add: api_register_def register_try_def register_proof_def)

theorem register_invalid_signature_400_witness:
  "api_register example_deps 1000 db_Ann register_forged_skip_false =
     (db_Ann, reply 400 (ErrorBody ''Invalid signature''))"
proof -
  have w: "bs58_decode (rg_wallet register_forged_skip_false) = Inr (replicate 32 0)"
    by code_simp
  have s: "bs58_decode (rg_signature register_forged_skip_false) = Inr (replicate 64 0)"
    by code_simp
  have v: "nacl_sign_detached_verify example_deps
      (text_encode example_deps (rg_message register_forged_skip_false))
      (replicate 64 0) (replicate 32 0) = Inr False"
    by code_simp
  have t: "\<not> falsy (rg_wallet register_forged_skip_false)"
    "falsy (rg_skip register_forged_skip_false)"
    "\<not> falsy (rg_signature register_forged_skip_false)"
    "\<not> falsy (rg_message register_forged_skip_false)"
    by (simp_all add: register_forged_skip_false_def wallet_W_def signature_S_def)
  show ?thesis
    by (rule register_invalid_signature_400 [OF t w s v])
qed

text \<open>
  C5 as stated fails: the status of that response is 400, not 401.
\<close>

theorem register_invalid_signature_not_401:
  "nacl_sign_detached_verify example_deps (text_encode example_deps (rg_message register_forged))
      (replicate 64 0) (replicate 32 0) = Inr False \<and>
   bs58_decode (rg_wallet register_forged) = Inr (replicate 32 0) \<and>
   bs58_decode (rg_signature register_forged) = Inr (replicate 64 0) \<and>
   api_register example_deps 1000 empty_db register_forged =
     (empty_db, \<lparr>status = 400, payload = ErrorBody ''Invalid signature''\<rparr>)"
  by code_simp

subsection \<open>What a successful submission stores\<close>

lemma api_score_success:
  assumes "api_score L secret now d req = (d', r)" and "status r = 200"
  shows "\<not> missing_fields req \<and>
     (\<exists>sp. jwt_verify L (sc_sessionToken req) secret (now div 1000) = Inr sp \<and>
        strict_eq (p_wallet sp) (sc_wallet req) \<and> strict_eq (p_game sp) (sc_game req)) \<and>
     score_signature L req = Inr True \<and> score_store L now d req = Inr (d', r)"
  using assms
  by (auto simp: api_score_def score_try_def internal_server_error_def reply_def
        split: sum.splits if_splits)

lemma score_store_JStr:
  assumes "sc_wallet req = JStr w" and "score_store L now d req = Inr (d', r)"
  shows "\<exists>g n. castString L (sc_game req) = Inr g \<and> castNumber L (sc_score req) = Inr n \<and>
     r = reply 200 SuccessBody \<and>
     d' = d\<lparr>scores := scores d @
       [\<lparr>s_wallet = w, s_game = (case g of None \<Rightarrow> [] | Some x \<Rightarrow> x), s_score = n,
         s_name = userName_of (find (\<lambda>u. u_wallet u = w) (users d)), s_timestamp = now\<rparr>]\<rparr>"
  using assms
  by (auto simp: score_store_def User_findOne_def Score_save_def castString_def
        split: sum.splits)

lemma userName_of_find:
  "userName_of x = (case x of None \<Rightarrow> [] | Some u \<Rightarrow> (case u_name u of None \<Rightarrow> [] | Some n \<Rightarrow> n))"
  by (simp add: userName_of_def split: option.splits)

text \<open>
  C8. A call of the score handler that answers 200 leaves the users as they were and
  appends exactly one ScoreRecord, for the request's wallet, whose name is the name
  stored for the first User with that wallet, and the empty string when no User has
  that wallet (or the User has no name). A wallet that never registered can submit:
  when the four checks pass and the score casts to a number, the call answers 200 and
  appends the record with the empty name.
\<close>

theorem successful_submission_persists_one_record:
  "(api_score L secret now d req = (d', r) \<and> status r = 200 \<longrightarrow>
      (\<exists>w rec. sc_wallet req = JStr w \<and> users d' = users d \<and>
         scores d' = scores d @ [rec] \<and> s_wallet rec = w \<and>
         castNumber L (sc_score req) = Inr (s_score rec) \<and>
         s_name rec =
           (case find (\<lambda>u. u_wallet u = w) (users d) of
              None \<Rightarrow> []
            | Some u \<Rightarrow> (case u_name u of None \<Rightarrow> [] | Some n \<Rightarrow> n)))) \<and>
   (\<not> missing_fields req \<and>
    jwt_verify L (sc_sessionToken req) secret (now div 1000) = Inr sp \<and>
    strict_eq (p_wallet sp) (sc_wallet req) \<and> strict_eq (p_game sp) (sc_game req) \<and>
    score_signature L req = Inr True \<and> castNumber L (sc_score req) = Inr n \<and>
    sc_wallet req = JStr w \<and> find (\<lambda>u. u_wallet u = w) (users d) = None \<longrightarrow>
      (\<exists>g. castString L (sc_game req) = Inr (Some g) \<and>
         api_score L secret now d req =
         (d\<lparr>scores := scores d @
            [\<lparr>s_wallet = w, s_game = g, s_score = n, s_name = [], s_timestamp = now\<rparr>]\<rparr>,
          reply 200 SuccessBody)))"
proof -
  have p1: "api_score L secret now d req = (d', r) \<and> status r = 200 \<longrightarrow>
      (\<exists>w rec. sc_wallet req = JStr w \<and> users d' = users d \<and>
         scores d' = scores d @ [rec] \<and> s_wallet rec = w \<and>
         castNumber L (sc_score req) = Inr (s_score rec) \<and>
         s_name rec =
           (case find (\<lambda>u. u_wallet u = w) (users d) of
              None \<Rightarrow> []
            | Some u \<Rightarrow> (case u_name u of None \<Rightarrow> [] | Some n \<Rightarrow> n)))"
  proof
    assume a: "api_score L secret now d req = (d', r) \<and> status r = 200"
    then have s: "score_signature L req = Inr True" and st: "score_store L now d req = Inr (d', r)"
      using api_score_success by blast+
    from s obtain w where w: "sc_wallet req = JStr w"
      using score_signature_wallet by blast
    from score_store_JStr [OF w st] obtain g n where
      n: "castNumber L (sc_score req) = Inr n" and
      d': "d' = d\<lparr>scores := scores d @
       [\<lparr>s_wallet = w, s_game = (case g of None \<Rightarrow> [] | Some x \<Rightarrow> x), s_score = n,
         s_name = userName_of (find (\<lambda>u. u_wallet u = w) (users d)), s_timestamp = now\<rparr>]\<rparr>"
      by blast
    show "\<exists>w rec. sc_wallet req = JStr w \<and> users d' = users d \<and>
         scores d' = scores d @ [rec] \<and> s_wallet rec = w \<and>
         castNumber L (sc_score req) = Inr (s_score rec) \<and>
         s_name rec =
           (case find (\<lambda>u. u_wallet u = w) (users d) of
              None \<Rightarrow> []
            | Some u \<Rightarrow> (case u_name u of None \<Rightarrow> [] | Some n \<Rightarrow> n))"
      using w n d' by (simp add: userName_of_find)
  qed
  have p2: "\<not> missing_fields req \<and>
    jwt_verify L (sc_sessionToken req) secret (now div 1000) = Inr sp \<and>
    strict_eq (p_wallet sp) (sc_wallet req) \<and> strict_eq (p_game sp) (sc_game req) \<and>
    score_signature L req = Inr True \<and> castNumber L (sc_score req) = Inr n \<and>
    sc_wallet req = JStr w \<and> find (\<lambda>u. u_wallet u = w) (users d) = None \<longrightarrow>
      (\<exists>g. castString L (sc_game req) = Inr (Some g) \<and>
         api_score L secret now d req =
         (d\<lparr>scores := scores d @
            [\<lparr>s_wallet = w, s_game = g, s_score = n, s_name = [], s_timestamp = now\<rparr>]\<rparr>,
          reply 200 SuccessBody))"
  proof
    assume a: "\<not> missing_fields req \<and>
      jwt_verify L (sc_sessionToken req) secret (now div 1000) = Inr sp \<and>
      strict_eq (p_wallet sp) (sc_wallet req) \<and> strict_eq (p_game sp) (sc_game req) \<and>
      score_signature L req = Inr True \<and> castNumber L (sc_score req) = Inr n \<and>
      sc_wallet req = JStr w \<and> find (\<lambda>u. u_wallet u = w) (users d) = None"
    then have "\<not> falsy (sc_game req)"
      by (simp add: missing_fields_def)
    with a obtain g where g: "castString L (sc_game req) = Inr (Some g)"
      using castString_strict_eq by blast
    from a g have "api_score L secret now d req =
         (d\<lparr>scores := scores d @
            [\<lparr>s_wallet = w, s_game = g, s_score = n, s_name = [], s_timestamp = now\<rparr>]\<rparr>,
          reply 200 SuccessBody)"
      by (elim conjE)
        (simp add: api_score_def score_try_def score_store_def User_findOne_def
          Score_save_def castString_JStr userName_of_def)
    with g show "\<exists>g. castString L (sc_game req) = Inr (Some g) \<and>
         api_score L secret now d req =
         (d\<lparr>scores := scores d @
            [\<lparr>s_wallet = w, s_game = g, s_score = n, s_name = [], s_timestamp = now\<rparr>]\<rparr>,
          reply 200 SuccessBody)"
      by blast
  qed
  show ?thesis
    by (rule conjI [OF p1 p2])
qed

theorem successful_submission_persists_one_record_witness:
  "scores (fst (api_score example_deps ''k'' 5000 db_Ann submit_42)) =
     scores db_Ann @ [\<lparr>s_wallet = wallet_W, s_game = ''snake'', s_score = Some 42,
        s_name = ''Ann'', s_timestamp = 5000\<rparr>] \<and>
   api_score example_deps ''k'' 5000 empty_db submit_unregistered =
      (empty_db\<lparr>scores := scores empty_db @
         [\<lparr>s_wallet = wallet_W, s_game = ''snake'', s_score = Some 7, s_name = [],
           s_timestamp = 5000\<rparr>]\<rparr>, reply 200 SuccessBody)"
proof -
  let ?sp = "\<lparr>p_wallet = JStr wallet_W, p_game = JStr ''snake''\<rparr>"
  let ?rec = "\<lparr>s_wallet = wallet_W, s_game = ''snake'', s_score = Some 42,
        s_name = ''Ann'', s_timestamp = 5000\<rparr>"
  have run: "api_score example_deps ''k'' 5000 db_Ann submit_42 =
      (db_Ann\<lparr>scores := [?rec]\<rparr>, reply 200 SuccessBody) \<and>
      status (reply 200 SuccessBody) = 200"
    by code_simp
  have f: "find (\<lambda>u. u_wallet u = wallet_W) (users db_Ann) = Some user_Ann"
    by code_simp
  from run successful_submission_persists_one_record
      [where L = example_deps and secret = "''k''" and now = 5000 and d = db_Ann
         and req = submit_42 and d' = "db_Ann\<lparr>scores := [?rec]\<rparr>"
         and r = "reply 200 SuccessBody"]
  have "\<exists>w rec. sc_wallet submit_42 = JStr w \<and>
      scores (db_Ann\<lparr>scores := [?rec]\<rparr>) = scores db_Ann @ [rec]"
    by blast
  with run have r1: "scores (fst (api_score example_deps ''k'' 5000 db_Ann submit_42)) =
     scores db_Ann @ [?rec]"
    by (simp add: db_Ann_def)
  have h: "\<not> missing_fields submit_unregistered \<and>
    jwt_verify example_deps (sc_sessionToken submit_unregistered) ''k'' (5000 div 1000) = Inr ?sp \<and>
    strict_eq (p_wallet ?sp) (sc_wallet submit_unregistered) \<and>
    strict_eq (p_game ?sp) (sc_game submit_unregistered) \<and>
    score_signature example_deps submit_unregistered = Inr True \<and>
    castNumber example_deps (sc_score submit_unregistered) = Inr (Some 7) \<and>
    sc_wallet submit_unregistered = JStr wallet_W \<and>
    find (\<lambda>u. u_wallet u = wallet_W) (users empty_db) = None"
    by code_simp
  from h successful_submission_persists_one_record
      [where L = example_deps and secret = "''k''" and now = 5000 and d = empty_db
         and req = submit_unregistered and sp = ?sp and n = "Some 7" and w = wallet_W]
  have "\<exists>g. castString example_deps (sc_game submit_unregistered) = Inr (Some g) \<and>
      api_score example_deps ''k'' 5000 empty_db submit_unregistered =
      (empty_db\<lparr>scores := scores empty_db @
         [\<lparr>s_wallet = wallet_W, s_game = g, s_score = Some 7, s_name = [],
           s_timestamp = 5000\<rparr>]\<rparr>, reply 200 SuccessBody)"
    by blast
  moreover have "castString example_deps (sc_game submit_unregistered) = Inr (Some ''snake'')"
    by code_simp
  ultimately have r2: "api_score example_deps ''k'' 5000 empty_db submit_unregistered =
      (empty_db\<lparr>scores := scores empty_db @
         [\<lparr>s_wallet = wallet_W, s_game = ''snake'', s_score = Some 7, s_name = [],
           s_timestamp = 5000\<rparr>]\<rparr>, reply 200 SuccessBody)"
    by auto
  from r1 r2 show ?thesis by blast
qed

text \<open>
  C9. The presence check compares \<^verbatim>\<open>score\<close> with \<^verbatim>\<open>undefined\<close> and nothing else: with
  the other five fields truthy, a field is missing exactly when score is undefined. A
  request with score 0 whose token and signature are valid answers 200 and appends a
  record with score 0. An empty string as wallet, game, sessionToken, clientSignature or
  signatureMessage answers 400 "Missing required fields".
\<close>

theorem score_presence_is_not_truthiness:
  "(\<not> falsy (sc_wallet req) \<and> \<not> falsy (sc_game req) \<and> \<not> falsy (sc_sessionToken req) \<and>
    \<not> falsy (sc_clientSignature req) \<and> \<not> falsy (sc_signatureMessage req) \<longrightarrow>
      missing_fields req = (sc_score req = JUndefined)) \<and>
   (sc_score req = JNum 0 \<and>
    \<not> falsy (sc_wallet req) \<and> \<not> falsy (sc_game req) \<and> \<not> falsy (sc_sessionToken req) \<and>
    \<not> falsy (sc_clientSignature req) \<and> \<not> falsy (sc_signatureMessage req) \<and>
    jwt_verify L (sc_sessionToken req) secret (now div 1000) = Inr sp \<and>
    strict_eq (p_wallet sp) (sc_wallet req) \<and> strict_eq (p_game sp) (sc_game req) \<and>
    score_signature L req = Inr True \<longrightarrow>
      (\<exists>w g. sc_wallet req = JStr w \<and> castString L (sc_game req) = Inr (Some g) \<and>
         api_score L secret now d req =
           (d\<lparr>scores := scores d @
              [\<lparr>s_wallet = w, s_game = g, s_score = Some 0,
                s_name = userName_of (find (\<lambda>u. u_wallet u = w) (users d)),
                s_timestamp = now\<rparr>]\<rparr>,
            reply 200 SuccessBody))) \<and>
   (sc_wallet req = JStr [] \<or> sc_game req = JStr [] \<or> sc_sessionToken req = JStr [] \<or>
    sc_clientSignature req = JStr [] \<or> sc_signatureMessage req = JStr [] \<longrightarrow>
      api_score L secret now d req = (d, reply 400 (ErrorBody ''Missing required fields'')))"
proof -
  have p1: "\<not> falsy (sc_wallet req) \<and> \<not> falsy (sc_game req) \<and> \<not> falsy (sc_sessionToken req) \<and>
    \<not> falsy (sc_clientSignature req) \<and> \<not> falsy (sc_signatureMessage req) \<longrightarrow>
      missing_fields req = (sc_score req = JUndefined)"
    by (simp add: missing_fields_def)
  have p2: "sc_score req = JNum 0 \<and>
    \<not> falsy (sc_wallet req) \<and> \<not> falsy (sc_game req) \<and> \<not> falsy (sc_sessionToken req) \<and>
    \<not> falsy (sc_clientSignature req) \<and> \<not> falsy (sc_signatureMessage req) \<and>
    jwt_verify L (sc_sessionToken req) secret (now div 1000) = Inr sp \<and>
    strict_eq (p_wallet sp) (sc_wallet req) \<and> strict_eq (p_game sp) (sc_game req) \<and>
    score_signature L req = Inr True \<longrightarrow>
      (\<exists>w g. sc_wallet req = JStr w \<and> castString L (sc_game req) = Inr (Some g) \<and>
         api_score L secret now d req =
           (d\<lparr>scores := scores d @
              [\<lparr>s_wallet = w, s_game = g, s_score = Some 0,
                s_name = userName_of (find (\<lambda>u. u_wallet u = w) (users d)),
                s_timestamp = now\<rparr>]\<rparr>,
            reply 200 SuccessBody))"
  proof
    assume a: "sc_score req = JNum 0 \<and>
      \<not> falsy (sc_wallet req) \<and> \<not> falsy (sc_game req) \<and> \<not> falsy (sc_sessionToken req) \<and>
      \<not> falsy (sc_clientSignature req) \<and> \<not> falsy (sc_signatureMessage req) \<and>
      jwt_verify L (sc_sessionToken req) secret (now div 1000) = Inr sp \<and>
      strict_eq (p_wallet sp) (sc_wallet req) \<and> strict_eq (p_game sp) (sc_game req) \<and>
      score_signature L req = Inr True"
    then obtain w where w: "sc_wallet req = JStr w"
      using score_signature_wallet by blast
    from a obtain g where g: "castString L (sc_game req) = Inr (Some g)"
      using castString_strict_eq by blast
    from a have m: "\<not> missing_fields req"
      by (simp add: missing_fields_def)
    from a have n: "castNumber L (sc_score req) = Inr (Some 0)"
      by (simp add: castNumber_def)
    from a w g m n have "api_score L secret now d req =
           (d\<lparr>scores := scores d @
              [\<lparr>s_wallet = w, s_game = g, s_score = Some 0,
                s_name = userName_of (find (\<lambda>u. u_wallet u = w) (users d)),
                s_timestamp = now\<rparr>]\<rparr>,
            reply 200 SuccessBody)"
      by (elim conjE)
        (simp add: api_score_def score_try_def score_store_def User_findOne_def
          Score_save_def castString_JStr)
    with w g show "\<exists>w g. sc_wallet req = JStr w \<and> castString L (sc_game req) = Inr (Some g) \<and>
         api_score L secret now d req =
           (d\<lparr>scores := scores d @
              [\<lparr>s_wallet = w, s_game = g, s_score = Some 0,
                s_name = userName_of (find (\<lambda>u. u_wallet u = w) (users d)),
                s_timestamp = now\<rparr>]\<rparr>,
            reply 200 SuccessBody)"
      by blast
  qed
  have p3: "sc_wallet req = JStr [] \<or> sc_game req = JStr [] \<or> sc_sessionToken req = JStr [] \<or>
    sc_clientSignature req = JStr [] \<or> sc_signatureMessage req = JStr [] \<longrightarrow>
      api_score L secret now d req = (d, reply 400 (ErrorBody ''Missing required fields''))"
    by (auto simp: api_score_def score_try_def missing_fields_def)
  show ?thesis
    by (rule conjI [OF p1 conjI [OF p2 p3]])
qed

theorem score_presence_is_not_truthiness_witness:
  "\<not> missing_fields submit_zero \<and>
   api_score example_deps ''k'' 5000 db_Ann submit_zero =
     (db_Ann\<lparr>scores := scores db_Ann @
        [\<lparr>s_wallet = wallet_W, s_game = ''snake'', s_score = Some 0, s_name = ''Ann'',
          s_timestamp = 5000\<rparr>]\<rparr>, reply 200 SuccessBody) \<and>
   api_score example_deps ''k'' 5000 db_Ann submit_empty_game =
     (db_Ann, reply 400 (ErrorBody ''Missing required fields''))"
proof -
  let ?sp = "\<lparr>p_wallet = JStr wallet_W, p_game = JStr ''snake''\<rparr>"
  have t: "\<not> falsy (sc_wallet submit_zero) \<and> \<not> falsy (sc_game submit_zero) \<and>
      \<not> falsy (sc_sessionToken submit_zero) \<and> \<not> falsy (sc_clientSignature submit_zero) \<and>
      \<not> falsy (sc_signatureMessage submit_zero)"
    by code_simp
  have z: "sc_score submit_zero = JNum 0"
    by (simp add: submit_zero_def)
  have v: "jwt_verify example_deps (sc_sessionToken submit_zero) ''k'' (5000 div 1000) = Inr ?sp \<and>
      strict_eq (p_wallet ?sp) (sc_wallet submit_zero) \<and>
      strict_eq (p_game ?sp) (sc_game submit_zero) \<and>
      score_signature example_deps submit_zero = Inr True"
    by code_simp
  have e: "sc_game submit_empty_game = JStr []"
    by (simp add: submit_empty_game_def)
  have k: "sc_wallet submit_zero = JStr wallet_W"
      "castString example_deps (sc_game submit_zero) = Inr (Some ''snake'')"
      "userName_of (find (\<lambda>u. u_wallet u = wallet_W) (users db_Ann)) = ''Ann''"
    by code_simp+
  note T = score_presence_is_not_truthiness [where L = example_deps and secret = "''k''"
      and now = 5000 and d = db_Ann and sp = ?sp]
  from t z T [where req = submit_zero] have r1: "\<not> missing_fields submit_zero"
    by simp
  from t z v T [where req = submit_zero] have "\<exists>w g. sc_wallet submit_zero = JStr w \<and>
      castString example_deps (sc_game submit_zero) = Inr (Some g) \<and>
      api_score example_deps ''k'' 5000 db_Ann submit_zero =
           (db_Ann\<lparr>scores := scores db_Ann @
              [\<lparr>s_wallet = w, s_game = g, s_score = Some 0,
                s_name = userName_of (find (\<lambda>u. u_wallet u = w) (users db_Ann)),
                s_timestamp = 5000\<rparr>]\<rparr>,
            reply 200 SuccessBody)"
    by blast
  with k have r2: "api_score example_deps ''k'' 5000 db_Ann submit_zero =
     (db_Ann\<lparr>scores := scores db_Ann @
        [\<lparr>s_wallet = wallet_W, s_game = ''snake'', s_score = Some 0, s_name = ''Ann'',
          s_timestamp = 5000\<rparr>]\<rparr>, reply 200 SuccessBody)"
    by auto
  from e T [where req = submit_empty_game]
  have r3: "api_score example_deps ''k'' 5000 db_Ann submit_empty_game =
     (db_Ann, reply 400 (ErrorBody ''Missing required fields''))"
    by blast
  from r1 r2 r3 show ?thesis by blast
qed

subsection \<open>Registration and the store\<close>

lemma find_None_filter: "find P xs = None \<Longrightarrow> filter P xs = []"
  by (induction xs) (auto split: if_splits)

lemma find_None_wallet:
  "find (\<lambda>u. u_wallet u = w) xs = None \<Longrightarrow> w \<notin> set (map u_wallet xs)"
  by (induction xs) (auto split: if_splits)

lemma distinct_find_filter:
  "distinct (map f xs) \<Longrightarrow> find (\<lambda>x. f x = k) xs = Some u \<Longrightarrow> filter (\<lambda>x. f x = k) xs = [u]"
proof (induction xs)
  case Nil
  then show ?case by simp
next
  case (Cons x xs)
  show ?case
  proof (cases "f x = k")
    case True
    with Cons.prems have "x = u" and "k \<notin> f ` set xs" by auto
    then have "filter (\<lambda>x. f x = k) xs = []"
      by (auto simp: filter_empty_conv)
    with True \<open>x = u\<close> show ?thesis by simp
  next
    case False
    with Cons show ?thesis by simp
  qed
qed

lemma find_append_new:
  "find P xs = None \<Longrightarrow> P u \<Longrightarrow> find P (xs @ [u]) = Some u"
  by (induction xs) (auto split: if_splits)

lemma register_store_wallet:
  assumes "rg_wallet req = JStr w"
  shows "register_store L now d req =
     (case find (\<lambda>u. u_wallet u = w) (users d) of
        Some user \<Rightarrow> Inr (d, reply 200 (RegisterBody user))
      | None \<Rightarrow>
          (case castString L (rg_name req) of
             Inl e \<Rightarrow> Inl ValidationError
           | Inr n \<Rightarrow>
               if w = [] \<or> (case n of None \<Rightarrow> False | Some s \<Rightarrow> 10 < length s)
               then Inl ValidationError
               else Inr (d\<lparr>users := users d @ [\<lparr>u_wallet = w, u_name = n, u_createdAt = now\<rparr>]\<rparr>,
                         reply 200 (RegisterBody \<lparr>u_wallet = w, u_name = n, u_createdAt = now\<rparr>))))"
proof (cases "find (\<lambda>u. u_wallet u = w) (users d)")
  case None
  then have "w \<notin> set (map u_wallet (users d))"
    by (rule find_None_wallet)
  with None assms show ?thesis
    by (simp add: register_store_def User_findOne_def User_save_def castString_JStr Let_def
          split: sum.splits option.splits)
next
  case (Some user)
  with assms show ?thesis
    by (simp add: register_store_def User_findOne_def castString_JStr)
qed



lemma register_proof_Some: "register_proof L req = Inr (Some r) \<Longrightarrow> status r = 400"
  by (auto simp: register_proof_def reply_def split: if_splits sum.splits)

lemma api_register_success:
  assumes "rg_wallet req = JStr w" and "api_register L now d req = (d', r)" and "status r = 200"
  shows "register_store L now d req = Inr (d', r) \<and> w \<noteq> []"
  using assms
  by (auto simp: api_register_def register_try_def internal_server_error_def
        reply_def split: sum.splits option.splits if_splits dest: register_proof_Some)

lemma api_register_passed:
  assumes "rg_wallet req = JStr w" and "w \<noteq> []" and "register_proof L req = Inr None"
  shows "api_register L now d req =
     (case register_store L now d req of Inl e \<Rightarrow> (d, internal_server_error) | Inr x \<Rightarrow> x)"
  using assms
  by (simp add: api_register_def register_try_def)

text \<open>
  The unique index: the handlers keep the wallets of the stored Users distinct, so the
  invariant that the next property assumes holds in every store the handlers built
  from the empty one.
\<close>

lemma User_save_unique:
  assumes "distinct (map u_wallet (users d))" and "User_save L now d wallet name = Inr (d', u)"
  shows "distinct (map u_wallet (users d')) \<and> scores d' = scores d"
  using assms
  by (auto simp: User_save_def Let_def split: sum.splits option.splits if_splits)

lemma api_register_keeps_wallets_unique:
  assumes "distinct (map u_wallet (users d))" and "api_register L now d req = (d', r)"
  shows "distinct (map u_wallet (users d')) \<and> scores d' = scores d"
  using assms
  by (auto simp: api_register_def register_try_def register_store_def
        split: sum.splits option.splits if_splits dest: User_save_unique)

lemma api_score_keeps_users:
  assumes "api_score L secret now d req = (d', r)"
  shows "users d' = users d"
  using assms
  by (auto simp: api_score_def score_try_def score_store_def Score_save_def
        split: sum.splits option.splits if_splits)

text \<open>
  C6, as the code has it. Two registrations with the same wallet, the first answering
  success and the second passing its verification, in a store with at most one User per
  wallet: both return the same User, the second changes nothing (whatever name it
  carries), at most one User was created, and exactly one User has that wallet.
\<close>

theorem register_twice_same_user:
  assumes w1: "rg_wallet req1 = JStr w" and w2: "rg_wallet req2 = JStr w"
    and inv: "distinct (map u_wallet (users d))"
    and first: "api_register L t1 d req1 = (d1, r1)" and ok: "status r1 = 200"
    and proof2: "register_proof L req2 = Inr None"
    and second: "api_register L t2 d1 req2 = (d2, r2)"
  shows "\<exists>u. r1 = reply 200 (RegisterBody u) \<and> r2 = reply 200 (RegisterBody u) \<and>
     d2 = d1 \<and> filter (\<lambda>x. u_wallet x = w) (users d2) = [u] \<and>
     (users d1 = users d \<or> users d1 = users d @ [u])"
proof -
  from w1 first ok have st: "register_store L t1 d req1 = Inr (d1, r1)" and ne: "w \<noteq> []"
    using api_register_success by blast+
  have run2: "api_register L t2 d1 req2 =
     (case register_store L t2 d1 req2 of Inl e \<Rightarrow> (d1, internal_server_error) | Inr x \<Rightarrow> x)"
    using w2 ne proof2 by (rule api_register_passed)
  show ?thesis
  proof (cases "find (\<lambda>u. u_wallet u = w) (users d)")
    case None
    with st w1 obtain n where
      d1: "d1 = d\<lparr>users := users d @ [\<lparr>u_wallet = w, u_name = n, u_createdAt = t1\<rparr>]\<rparr>"
      and r1: "r1 = reply 200 (RegisterBody \<lparr>u_wallet = w, u_name = n, u_createdAt = t1\<rparr>)"
      by (auto simp: register_store_wallet split: sum.splits if_splits)
    let ?u = "\<lparr>u_wallet = w, u_name = n, u_createdAt = t1\<rparr>"
    from None have f: "find (\<lambda>u. u_wallet u = w) (users d1) = Some ?u"
      unfolding d1 by (simp add: find_append_new)
    from f w2 have "register_store L t2 d1 req2 = Inr (d1, reply 200 (RegisterBody ?u))"
      by (simp add: register_store_wallet)
    with run2 second have s: "d2 = d1" "r2 = reply 200 (RegisterBody ?u)"
      by simp_all
    from None have "filter (\<lambda>x. u_wallet x = w) (users d1) = [?u]"
      unfolding d1 by (simp add: find_None_filter)
    with s r1 d1 show ?thesis by auto
  next
    case (Some u)
    with st w1 have d1: "d1 = d" and r1: "r1 = reply 200 (RegisterBody u)"
      by (auto simp: register_store_wallet)
    from Some w2 d1 have "register_store L t2 d1 req2 = Inr (d1, reply 200 (RegisterBody u))"
      by (simp add: register_store_wallet)
    with run2 second have s: "d2 = d1" "r2 = reply 200 (RegisterBody u)"
      by simp_all
    from inv Some have "filter (\<lambda>x. u_wallet x = w) (users d) = [u]"
      by (rule distinct_find_filter)
    with s r1 d1 show ?thesis by auto
  qed
qed

theorem register_twice_same_user_witness:
  "api_register example_deps 1000 empty_db register_Ann =
     (db_Ann, reply 200 (RegisterBody user_Ann)) \<and>
   api_register example_deps 2000 db_Ann register_Bob =
     (db_Ann, reply 200 (RegisterBody user_Ann)) \<and>
   filter (\<lambda>x. u_wallet x = wallet_W) (users db_Ann) = [user_Ann]"
proof -
  have a: "rg_wallet register_Ann = JStr wallet_W" "rg_wallet register_Bob = JStr wallet_W"
      "distinct (map u_wallet (users empty_db))"
    by code_simp+
  have f: "api_register example_deps 1000 empty_db register_Ann =
      (db_Ann, reply 200 (RegisterBody user_Ann))"
    by code_simp
  have o: "status (reply 200 (RegisterBody user_Ann)) = 200"
    by (simp add: reply_def)
  have p: "register_proof example_deps register_Bob = Inr None"
    by code_simp
  obtain d2 r2 where s: "api_register example_deps 2000 db_Ann register_Bob = (d2, r2)"
    by (cases "api_register example_deps 2000 db_Ann register_Bob") blast
  from register_twice_same_user [OF a f o p s]
  have "r2 = reply 200 (RegisterBody user_Ann) \<and> d2 = db_Ann \<and>
      filter (\<lambda>x. u_wallet x = wallet_W) (users d2) = [user_Ann]"
    by (auto simp: reply_def)
  with f s show ?thesis by auto
qed

text \<open>
  C6 as stated fails: two registrations that pass verification (skip set) with a name
  of eleven characters both answer 500, return no User and store none.
\<close>

theorem register_twice_can_create_no_user:
  "register_proof example_deps register_long_name = Inr None \<and>
   api_register example_deps 1000 empty_db register_long_name =
     (empty_db, reply 500 (ErrorBody ''Internal server error'')) \<and>
   api_register example_deps 2000 empty_db register_long_name =
     (empty_db, reply 500 (ErrorBody ''Internal server error'')) \<and>
   users empty_db = []"
  by code_simp

subsection \<open>Session tokens\<close>

text \<open>
  C3. For a wallet and a game that the session handler accepts, and packages whose
  token opens to what was sealed: the token the handler issues verifies at the time of
  issue and returns exactly that wallet and game, and at any time 600 seconds or more
  later it fails with ExpiredToken.
\<close>

theorem session_token_roundtrip:
  assumes "\<not> falsy w" and "\<not> falsy g"
    and "jwt_open L secret
           (jwt_seal L secret
              \<lparr>c_wallet = w, c_game = g, c_issuedAt = now div 1000,
                c_expiresAt = now div 1000 + 600\<rparr>) =
         Some \<lparr>c_wallet = w, c_game = g, c_issuedAt = now div 1000,
                c_expiresAt = now div 1000 + 600\<rparr>"
  shows "\<exists>tok. api_session L secret now \<lparr>ss_wallet = w, ss_game = g\<rparr> =
             reply 200 (SessionBody tok) \<and>
           jwt_verify L (JStr tok) secret (now div 1000) = Inr \<lparr>p_wallet = w, p_game = g\<rparr> \<and>
           (\<forall>later. now + 600 * 1000 \<le> later \<longrightarrow>
              jwt_verify L (JStr tok) secret (later div 1000) = Inl ExpiredToken)"
proof -
  let ?c = "\<lparr>c_wallet = w, c_game = g, c_issuedAt = now div 1000,
             c_expiresAt = now div 1000 + 600\<rparr>"
  let ?tok = "jwt_seal L secret ?c"
  have issue: "api_session L secret now \<lparr>ss_wallet = w, ss_game = g\<rparr> =
      reply 200 (SessionBody ?tok)"
    using assms(1,2) by (simp add: api_session_def jwt_sign_def SESSION_DURATION_def)
  have fresh: "jwt_verify L (JStr ?tok) secret (now div 1000) = Inr \<lparr>p_wallet = w, p_game = g\<rparr>"
    using assms(3) by (simp add: jwt_verify_def)
  have late: "jwt_verify L (JStr ?tok) secret (later div 1000) = Inl ExpiredToken"
    if "now + 600 * 1000 \<le> later" for later
  proof -
    from that have "(now + 600 * 1000) div 1000 \<le> later div 1000"
      by (rule div_le_mono)
    then have "now div 1000 + 600 \<le> later div 1000"
      by simp
    with assms(3) show ?thesis
      by (simp add: jwt_verify_def)
  qed
  from issue fresh late show ?thesis by blast
qed

theorem session_token_roundtrip_witness:
  "api_session example_deps ''k'' 5000 \<lparr>ss_wallet = JStr wallet_W, ss_game = JStr ''snake''\<rparr> =
     reply 200 (SessionBody ''tok'') \<and>
   jwt_verify example_deps (JStr ''tok'') ''k'' (5000 div 1000) =
     Inr \<lparr>p_wallet = JStr wallet_W, p_game = JStr ''snake''\<rparr> \<and>
   jwt_verify example_deps (JStr ''tok'') ''k'' (605000 div 1000) = Inl ExpiredToken"
proof -
  have t: "\<not> falsy (JStr wallet_W)" "\<not> falsy (JStr ''snake'')"
    by code_simp+
  have o: "jwt_open example_deps ''k''
           (jwt_seal example_deps ''k''
              \<lparr>c_wallet = JStr wallet_W, c_game = JStr ''snake'', c_issuedAt = 5000 div 1000,
                c_expiresAt = 5000 div 1000 + 600\<rparr>) =
         Some \<lparr>c_wallet = JStr wallet_W, c_game = JStr ''snake'', c_issuedAt = 5000 div 1000,
                c_expiresAt = 5000 div 1000 + 600\<rparr>"
    by (simp add: example_deps_def claims_W_def)
  have i: "api_session example_deps ''k'' 5000
      \<lparr>ss_wallet = JStr wallet_W, ss_game = JStr ''snake''\<rparr> = reply 200 (SessionBody ''tok'')"
    by code_simp
  from session_token_roundtrip [OF t o] i
  have "jwt_verify example_deps (JStr ''tok'') ''k'' (5000 div 1000) =
      Inr \<lparr>p_wallet = JStr wallet_W, p_game = JStr ''snake''\<rparr> \<and>
    (\<forall>later. 5000 + 600 * 1000 \<le> later \<longrightarrow>
       jwt_verify example_deps (JStr ''tok'') ''k'' (later div 1000) = Inl ExpiredToken)"
    by (auto simp: reply_def)
  then have "jwt_verify example_deps (JStr ''tok'') ''k'' (5000 div 1000) =
      Inr \<lparr>p_wallet = JStr wallet_W, p_game = JStr ''snake''\<rparr>"
    and "5000 + 600 * 1000 \<le> (605000::nat) \<longrightarrow>
      jwt_verify example_deps (JStr ''tok'') ''k'' (605000 div 1000) = Inl ExpiredToken"
    by blast+
  with i show ?thesis by simp
qed

text \<open>
  C7. The expiry comparison is inclusive: a token that opens under the secret fails
  with ExpiredToken at the clock value equal to its expiresAt (and at every later one),
  and verifies at every earlier one. A submission at that second is answered 401.
\<close>

theorem expiry_is_inclusive:
  assumes "jwt_open L secret tok = Some c"
  shows "jwt_verify L (JStr tok) secret (c_expiresAt c) = Inl ExpiredToken \<and>
     (\<forall>clock. clock < c_expiresAt c \<longrightarrow>
        jwt_verify L (JStr tok) secret clock = Inr \<lparr>p_wallet = c_wallet c, p_game = c_game c\<rparr>) \<and>
     (\<forall>clock. c_expiresAt c \<le> clock \<longrightarrow>
        jwt_verify L (JStr tok) secret clock = Inl ExpiredToken) \<and>
     (\<not> missing_fields req \<and> sc_sessionToken req = JStr tok \<and> now div 1000 = c_expiresAt c \<longrightarrow>
        api_score L secret now d req =
          (d, reply 401 (ErrorBody ''Invalid or expired session token'')))"
proof -
  have v: "jwt_verify L (JStr tok) secret clock =
      (if c_expiresAt c \<le> clock then Inl ExpiredToken
       else Inr \<lparr>p_wallet = c_wallet c, p_game = c_game c\<rparr>)" for clock
    using assms by (simp add: jwt_verify_def)
  have a: "jwt_verify L (JStr tok) secret (c_expiresAt c) = Inl ExpiredToken"
    by (simp add: v)
  have b: "\<forall>clock. clock < c_expiresAt c \<longrightarrow>
        jwt_verify L (JStr tok) secret clock = Inr \<lparr>p_wallet = c_wallet c, p_game = c_game c\<rparr>"
    by (simp add: v)
  have c: "\<forall>clock. c_expiresAt c \<le> clock \<longrightarrow>
        jwt_verify L (JStr tok) secret clock = Inl ExpiredToken"
    by (simp add: v)
  have d: "\<not> missing_fields req \<and> sc_sessionToken req = JStr tok \<and> now div 1000 = c_expiresAt c \<longrightarrow>
        api_score L secret now d req =
          (d, reply 401 (ErrorBody ''Invalid or expired session token''))"
  proof
    assume h: "\<not> missing_fields req \<and> sc_sessionToken req = JStr tok \<and>
      now div 1000 = c_expiresAt c"
    then have "jwt_verify L (sc_sessionToken req) secret (now div 1000) = Inl ExpiredToken"
      using a by simp
    with h show "api_score L secret now d req =
          (d, reply 401 (ErrorBody ''Invalid or expired session token''))"
      by (simp add: api_score_def score_try_def)
  qed
  show ?thesis
    by (rule conjI [OF a conjI [OF b conjI [OF c d]]])
qed

theorem expiry_is_inclusive_witness:
  "c_expiresAt claims_W = 605 \<and>
   jwt_verify example_deps (JStr ''tok'') ''k'' 605 = Inl ExpiredToken \<and>
   jwt_verify example_deps (JStr ''tok'') ''k'' 604 =
     Inr \<lparr>p_wallet = JStr wallet_W, p_game = JStr ''snake''\<rparr> \<and>
   api_score example_deps ''k'' 605000 db_Ann submit_42 =
     (db_Ann, reply 401 (ErrorBody ''Invalid or expired session token''))"
proof -
  have o: "jwt_open example_deps ''k'' ''tok'' = Some claims_W"
    by (simp add: example_deps_def)
  have e: "c_expiresAt claims_W = 605" "c_wallet claims_W = JStr wallet_W"
      "c_game claims_W = JStr ''snake''"
    by (simp_all add: claims_W_def)
  have m: "\<not> missing_fields submit_42 \<and> sc_sessionToken submit_42 = JStr ''tok'' \<and>
      605000 div 1000 = c_expiresAt claims_W"
    by (simp add: missing_fields_def submit_42_def claims_W_def wallet_W_def signature_S_def)
  note T = expiry_is_inclusive [OF o, of submit_42 605000 db_Ann]
  from T e have r1: "jwt_verify example_deps (JStr ''tok'') ''k'' 605 = Inl ExpiredToken"
    by simp
  from T have "(604::nat) < c_expiresAt claims_W \<longrightarrow>
      jwt_verify example_deps (JStr ''tok'') ''k'' 604 =
        Inr \<lparr>p_wallet = c_wallet claims_W, p_game = c_game claims_W\<rparr>"
    by blast
  with e have r2: "jwt_verify example_deps (JStr ''tok'') ''k'' 604 =
     Inr \<lparr>p_wallet = JStr wallet_W, p_game = JStr ''snake''\<rparr>"
    by simp
  from T m have r3: "api_score example_deps ''k'' 605000 db_Ann submit_42 =
     (db_Ann, reply 401 (ErrorBody ''Invalid or expired session token''))"
    by blast
  from e(1) r1 r2 r3 show ?thesis by blast
qed

end
